theory Spec2Isabelle
  imports Complex_Main
begin

section \<open>Shared notions: time, errors, the widget base\<close>

text \<open>
  Go's \<^verbatim>\<open>time.Time\<close> is modelled as an integer number of nanoseconds counted from
  the zero value \<^verbatim>\<open>time.Time{}\<close>, and \<^verbatim>\<open>time.Duration\<close> as an integer number of
  nanoseconds (an int64 in Go). Go's \<^verbatim>\<open>int\<close> fields are only compared and copied by the
  code below, so they are integers.
\<close>

type_synonym time = int
type_synonym duration = int

definition Minute :: duration where
  "Minute = 60000000000"

definition Hour :: duration where
  "Hour = 60 * Minute"

definition minDuration :: duration where
  "minDuration = - (2 ^ 63)"

definition maxDuration :: duration where
  "maxDuration = 2 ^ 63 - 1"

text \<open>
  \<^verbatim>\<open>time.Since(t)\<close> is \<^verbatim>\<open>time.Now().Sub(t)\<close>; \<^verbatim>\<open>Sub\<close> saturates at the least and
  the greatest \<^verbatim>\<open>Duration\<close>.
\<close>

definition Since :: "time \<Rightarrow> time \<Rightarrow> duration" where
  "Since now t =
     (if now - t < minDuration then minDuration
      else if maxDuration < now - t then maxDuration
      else now - t)"

text \<open>
  Conversion to \<^verbatim>\<open>time.Duration\<close> followed by a product with a \<^verbatim>\<open>Duration\<close>
  constant: int64 arithmetic, which wraps around.
\<close>

definition wrap64 :: "int \<Rightarrow> int" where
  "wrap64 x = (x + 2 ^ 63) mod 2 ^ 64 - 2 ^ 63"

text \<open>
  Every error value the two widgets build, one constructor for each place of the source
  that creates one. \<^verbatim>\<open>Transport\<close> stands for the errors of the HTTP client itself.
\<close>

datatype error =
    Transport string
  | ContextCanceled
  | TimeoutExceeded
  | ConnectionRefused
  | NilContextError
  | InvalidURL string
  | CreateRequestFailed error
  | RequestFailed error
  | WeiboStatusCode int
  | ReadBodyFailed
  | ParseJSONFailed
  | WeiboNotOK int
  | FactStatusCode int
  | BodyReadError
  | JSONDecodeError
  | APIKeyNotConfigured
  | AIStatusCode int
  | AIAPIError string
  | NoChoices
  | NoDataAvailable

datatype schedule_request = EarlyUpdate | NextUpdate

text \<open>
  The embedded \<^verbatim>\<open>widgetBase\<close> struct. Its declaration belongs to the dashboard host;
  the fields are those the two widgets read or write (\<^verbatim>\<open>CustomCacheDuration\<close>,
  \<^verbatim>\<open>ContentAvailable\<close>) and those the host hooks below store their argument in.
\<close>

record widgetBase =
  Title :: string
  CustomCacheDuration :: duration
  ContentAvailable :: bool
  Error :: "error option"
  cacheDuration :: duration
  scheduled :: "schedule_request list"

text \<open>
  Modelled from the spec: \<^verbatim>\<open>withTitle\<close>, a configuration setter of the host: it stores
  the title.
\<close>

definition withTitle :: "string \<Rightarrow> widgetBase \<Rightarrow> widgetBase" where
  "withTitle t b = b\<lparr>Title := t\<rparr>"

text \<open>
  Modelled from the spec: \<^verbatim>\<open>withCacheDuration\<close>, a configuration setter of the host:
  it sets the lifetime of the cached result.
\<close>

definition withCacheDuration :: "duration \<Rightarrow> widgetBase \<Rightarrow> widgetBase" where
  "withCacheDuration d b = b\<lparr>cacheDuration := d\<rparr>"

text \<open>
  Modelled from the spec: \<^verbatim>\<open>withError\<close>, the error-reporting hook of the host: it
  stores the error on the widget for later display.
\<close>

definition withError :: "error \<Rightarrow> widgetBase \<Rightarrow> widgetBase" where
  "withError e b = b\<lparr>Error := Some e\<rparr>"

text \<open>
  Modelled from the spec: \<^verbatim>\<open>scheduleEarlyUpdate\<close>, a retry-scheduling hook: it asks the
  host for a retry earlier than the normal refresh. The back-off policy is the host's, so
  the model records the request, the latest first.
\<close>

definition scheduleEarlyUpdate :: "widgetBase \<Rightarrow> widgetBase" where
  "scheduleEarlyUpdate b = b\<lparr>scheduled := EarlyUpdate # scheduled b\<rparr>"

text \<open>
  Modelled from the spec: \<^verbatim>\<open>scheduleNextUpdate\<close>, a retry-scheduling hook: it asks the
  host to schedule the next regular update.
\<close>

definition scheduleNextUpdate :: "widgetBase \<Rightarrow> widgetBase" where
  "scheduleNextUpdate b = b\<lparr>scheduled := NextUpdate # scheduled b\<rparr>"

text \<open>
  The HTML fragment a template produces is kept symbolic: the files of the template and
  the data handed to it (\<open>None\<close> for \<^verbatim>\<open>nil\<close>). The template files and the template
  engine are the host's.
\<close>

type_synonym template = "string list"

record 'd html =
  template :: template
  data :: "'d option"

definition mustParseTemplate :: "string list \<Rightarrow> template" where
  "mustParseTemplate files = files"

text \<open>
  Modelled from the spec: \<^verbatim>\<open>renderTemplate\<close>, the template-rendering call of the host:
  it receives the widget's current state and produces an HTML fragment.
\<close>

definition renderTemplate :: "'d option \<Rightarrow> template \<Rightarrow> 'd html" where
  "renderTemplate d t = \<lparr>template = t, data = d\<rparr>"

section \<open>Data of the hot-search widget\<close>

text \<open>A decoded JSON value, for the \<^verbatim>\<open>map[string]interface{}\<close> field.\<close>

datatype json =
    JNull
  | JBool bool
  | JNumber int
  | JString string
  | JArray "json list"
  | JObject "(string \<times> json) list"

text \<open>The anonymous structs \<^verbatim>\<open>Hotgov\<close> and \<^verbatim>\<open>Logs\<close> of the API response.\<close>

record weiboHotgov =
  SmallIconDesc :: string
  SmallIconDescColor :: string
  IconHeight :: int
  IsHot :: int
  Pos :: int
  TopicFlag :: int
  Word :: string
  IsGov :: int
  Note :: string
  Name :: string
  URL :: string
  Flag :: int
  IconWidth :: int
  Stime :: int
  IconDesc :: string
  Icon :: string
  IconDescColor :: string
  Mid :: string

record weiboLogs =
  ActCode :: int
  Ext :: string

record weiboHotSearchItem =
  Icon :: string
  IconWidth :: int
  IconHeight :: int
  Emoticon :: string
  Num :: int
  Note :: string
  RealPos :: int
  LabelName :: string
  SmallIconDesc :: string
  SmallIconDescColor :: string
  Flag :: int
  IconDesc :: string
  IconDescColor :: string
  WordScheme :: string
  TopicFlag :: int
  Word :: string
  Rank :: int
  FlagDesc :: string
  Monitors :: "(string \<times> json) list"
  DotIcon :: int
  IsAd :: int
  IconType :: string
  ID :: int

text \<open>The anonymous struct of an item with its search URL.\<close>

record hotSearchWithUrl =
  weiboHotSearchItem :: weiboHotSearchItem
  URL :: string

record weiboData =
  Realtime :: "weiboHotSearchItem list"
  Hotgovs :: "weiboHotSearchItem list"
  Hotgov :: weiboHotgov
  Logs :: weiboLogs

record weiboAPIResponse =
  OK :: int
  Data :: weiboData

record weiboWidget =
  widgetBase :: widgetBase
  ShowCount :: int
  Limit :: int
  Category :: string
  RefreshInterval :: int
  HotSearches :: "hotSearchWithUrl list"
  LastUpdated :: time

section \<open>Data of the random-fact widget\<close>

record randomFactData =
  FactID :: string
  FactText :: string
  Content :: string
  Source :: string

record rawFactResponse =
  ID :: string
  Text :: string
  Source :: string
  SourceURL :: string
  Language :: string
  Permalink :: string

text \<open>The anonymous structs of the AI response: a choice's message, a choice, the error.\<close>

record aiMessage =
  Content :: string

record aiChoice =
  Message :: aiMessage

record aiError =
  Message :: string
  Type :: string
  Code :: string

record aiResponse =
  Choices :: "aiChoice list"
  Error :: "aiError option"

text \<open>\<^verbatim>\<open>http.Client\<close>: the widget sets its \<^verbatim>\<open>Timeout\<close> only; 0 is no timeout.\<close>

record httpClient =
  Timeout :: duration

record randomFactWidget =
  widgetBase :: widgetBase
  APIKey :: string
  Model :: string
  APIURL :: string
  client :: "httpClient option"
  CachedData :: "randomFactData option"
  lastUpdate :: time

section \<open>The network and the clock\<close>

text \<open>
  A \<^verbatim>\<open>context.Context\<close>: \<^verbatim>\<open>nil\<close>, the background context (never cancelled), or a
  cancellable context, named by a number. The world says which of them are cancelled.
\<close>

datatype Context = NilCtx | Background | Cancellable nat

text \<open>
  The body of a request: none, or the chat-completion payload of \<^verbatim>\<open>processWithAI\<close>
  (model, system instruction, user message, stream, max_tokens, response_format type).
  The system instruction is one fixed text of the source, kept as a symbol.
\<close>

datatype system_prompt = RandomFactPrompt

datatype request_body =
    NoBody
  | ChatCompletion string system_prompt string bool int string

record request =
  Method :: string
  url :: string
  ctx :: Context
  header :: "(string \<times> string) list"
  body :: request_body

text \<open>
  What the server sends back is represented by what the caller makes of it: a status
  code, and a body that cannot be read, that does not decode at the caller's type, or
  that decodes to a value of that type.
\<close>

datatype 'a response_body = Unreadable | Undecodable | Decodes 'a

record 'a response =
  StatusCode :: int
  Body :: "'a response_body"

datatype 'a reply = Fails error | Replies "'a response"

text \<open>One round trip: the time it takes, in nanoseconds, and how it ends.\<close>

record 'a exchange =
  latency :: nat
  reply :: "'a reply"

text \<open>
  The world outside the widgets: the clock, the cancelled contexts, the URLs that
  \<^verbatim>\<open>http.NewRequest\<close> can parse, the exchanges each endpoint will answer with, in
  order, and the requests handed to an HTTP client so far, the oldest first, and the
  lines printed.
\<close>

datatype log_line =
    AINotConfigured
  | ErrorFetchingRawFact error
  | NoCachedData

record world =
  clock :: time
  cancelled :: "nat set"
  parses :: "string \<Rightarrow> bool"
  weiboAPI :: "weiboAPIResponse exchange list"
  factAPI :: "rawFactResponse exchange list"
  aiAPI :: "aiResponse exchange list"
  requests :: "request list"
  stdout :: "log_line list"

definition weiboAPIURL :: string where
  "weiboAPIURL = ''https://weibo.com/ajax/side/hotSearch''"

definition factAPIURL :: string where
  "factAPIURL = ''https://uselessfacts.jsph.pl/api/v2/facts/random''"

definition defaultFactCacheDuration :: duration where
  "defaultFactCacheDuration = 2 * Hour"

text \<open>
  \<^verbatim>\<open>http.NewRequestWithContext\<close> refuses a \<^verbatim>\<open>nil\<close> context and a URL that does not
  parse. The two fixed URLs above parse; \<open>ok\<close> says whether the URL given does.
\<close>

definition NewRequestWithContext ::
  "bool \<Rightarrow> Context \<Rightarrow> string \<Rightarrow> string \<Rightarrow> request_body \<Rightarrow> error + request" where
  "NewRequestWithContext ok c m u b =
     (if c = NilCtx then Inl NilContextError
      else if \<not> ok then Inl (InvalidURL u)
      else Inr \<lparr>Method = m, url = u, ctx = c, header = [], body = b\<rparr>)"

definition NewRequest :: "bool \<Rightarrow> string \<Rightarrow> string \<Rightarrow> request_body \<Rightarrow> error + request" where
  "NewRequest ok m u b = NewRequestWithContext ok Background m u b"

definition Header_Set :: "string \<Rightarrow> string \<Rightarrow> request \<Rightarrow> request" where
  "Header_Set k v req = req\<lparr>header := filter (\<lambda>kv. fst kv \<noteq> k) (header req) @ [(k, v)]\<rparr>"

definition is_cancelled :: "nat set \<Rightarrow> Context \<Rightarrow> bool" where
  "is_cancelled cs c = (case c of Cancellable n \<Rightarrow> n \<in> cs | _ \<Rightarrow> False)"

text \<open>
  \<^verbatim>\<open>client.Do\<close> against the exchanges an endpoint still has: the reply, the time that
  passed, and the exchanges left. A request whose context is cancelled fails and never
  gets its reply; a round trip longer than the client's timeout fails when the timeout
  is reached; an endpoint with nothing left to say refuses the connection.
\<close>

definition roundTrip ::
  "duration \<Rightarrow> nat set \<Rightarrow> request \<Rightarrow> 'a exchange list \<Rightarrow> 'a reply \<times> duration \<times> 'a exchange list" where
  "roundTrip timeout cs req queue =
     (if is_cancelled cs (ctx req) then (Fails ContextCanceled, 0, queue)
      else case queue of
        [] \<Rightarrow> (Fails ConnectionRefused, 0, [])
      | x # rest \<Rightarrow>
          if 0 < timeout \<and> timeout < int (latency x)
          then (Fails TimeoutExceeded, timeout, rest)
          else (reply x, int (latency x), rest))"

section \<open>The hot-search widget: configuration\<close>

definition weiboWidgetTemplate :: template where
  "weiboWidgetTemplate = mustParseTemplate [''weibo.html'', ''widget-base.html'']"

text \<open>
  \<^verbatim>\<open>initialize\<close> returns its error (always \<^verbatim>\<open>nil\<close>, here \<open>None\<close>) and the widget it
  has written to.
\<close>

definition weiboWidget_initialize :: "weiboWidget \<Rightarrow> error option \<times> weiboWidget" where
  "weiboWidget_initialize widget =
    (let w1 = widget\<lparr>weiboWidget.widgetBase :=
                withCacheDuration (30 * Minute)
                  (withTitle ''Weibo HotSearch'' (weiboWidget.widgetBase widget))\<rparr>;
         w2 = (if Limit w1 > 0 then w1\<lparr>ShowCount := Limit w1\<rparr> else w1);
         w3 = (if ShowCount w2 \<le> 0 then w2\<lparr>ShowCount := 10\<rparr> else w2);
         w4 = (if ShowCount w3 > 50 then w3\<lparr>ShowCount := 50\<rparr> else w3);
         w5 = (if RefreshInterval w4 \<le> 0 then w4\<lparr>RefreshInterval := 30\<rparr> else w4);
         w6 = w5\<lparr>weiboWidget.widgetBase :=
                withCacheDuration (wrap64 (RefreshInterval w5 * Minute))
                  (weiboWidget.widgetBase w5)\<rparr>;
         w7 = w6\<lparr>weiboWidget.widgetBase :=
                (weiboWidget.widgetBase w6)\<lparr>ContentAvailable := True\<rparr>\<rparr>
     in (None, w7))"

section \<open>The hot-search widget: fetching\<close>

text \<open>
  \<^verbatim>\<open>url.QueryEscape\<close>: letters, digits and \<^verbatim>\<open>-_.~\<close> are kept, a space becomes
  \<^verbatim>\<open>+\<close>, every other byte becomes \<^verbatim>\<open>%XX\<close> in upper-case hexadecimal.
\<close>

definition shouldEscape :: "char \<Rightarrow> bool" where
  "shouldEscape c =
     (let n = (of_char c :: nat)
      in \<not> ((97 \<le> n \<and> n \<le> 122) \<or> (65 \<le> n \<and> n \<le> 90) \<or> (48 \<le> n \<and> n \<le> 57) \<or>
             c = CHR ''-'' \<or> c = CHR ''_'' \<or> c = CHR ''.'' \<or> c = CHR ''~''))"

definition upperhex :: string where
  "upperhex = ''0123456789ABCDEF''"

definition escapeByte :: "char \<Rightarrow> string" where
  "escapeByte c =
     (if c = CHR '' '' then ''+''
      else if shouldEscape c
      then [CHR ''%'', upperhex ! ((of_char c :: nat) div 16), upperhex ! ((of_char c :: nat) mod 16)]
      else [c])"

definition QueryEscape :: "string \<Rightarrow> string" where
  "QueryEscape s = concat (map escapeByte s)"

text \<open>
  The filtering loop of \<^verbatim>\<open>fetchWeiboHotSearch\<close>: the items are visited in order and the
  kept ones appended.
\<close>

fun filterHotSearches :: "string \<Rightarrow> weiboHotSearchItem list \<Rightarrow> weiboHotSearchItem list" where
  "filterHotSearches category [] = []"
| "filterHotSearches category (item # rest) =
     (if Word item \<noteq> []
      then (if category \<noteq> [] \<and> LabelName item \<noteq> category
            then filterHotSearches category rest
            else item # filterHotSearches category rest)
      else filterHotSearches category rest)"

definition applyLimit :: "int \<Rightarrow> weiboHotSearchItem list \<Rightarrow> weiboHotSearchItem list" where
  "applyLimit showCount filtered =
     (if showCount > 0 \<and> int (length filtered) > showCount
      then take (nat showCount) filtered
      else filtered)"

definition withSearchURL :: "weiboHotSearchItem \<Rightarrow> hotSearchWithUrl" where
  "withSearchURL item =
     \<lparr>weiboHotSearchItem = item,
      hotSearchWithUrl.URL = ''https://s.weibo.com/weibo?q='' @ QueryEscape (WordScheme item)\<rparr>"

text \<open>The part of \<^verbatim>\<open>fetchWeiboHotSearch\<close> that follows the decoding of the response.\<close>

definition selectHotSearches :: "weiboWidget \<Rightarrow> weiboAPIResponse \<Rightarrow> hotSearchWithUrl list" where
  "selectHotSearches widget apiResponse =
     (let allItems = [] @ Realtime (Data apiResponse) @ Hotgovs (Data apiResponse);
          filteredHotSearches = filterHotSearches (Category widget) allItems;
          limited = applyLimit (ShowCount widget) filteredHotSearches
      in map withSearchURL limited)"

definition weiboRequest :: "request \<Rightarrow> request" where
  "weiboRequest req =
     Header_Set ''Referer'' ''https://weibo.com''
       (Header_Set ''Accept-Language'' ''zh-CN,zh;q=0.9,en;q=0.8''
         (Header_Set ''Accept'' ''application/json, text/plain, */*''
           (Header_Set ''User-Agent''
              ''Mozilla/5.0 (Windows NT 10.0; Win64; x64) AppleWebKit/537.36 (KHTML, like Gecko) Chrome/91.0.4472.124 Safari/537.36''
              req)))"

text \<open>\<^verbatim>\<open>client.Do\<close> of the hot-search widget, whose client has no timeout.\<close>

definition weiboDo :: "request \<Rightarrow> world \<Rightarrow> weiboAPIResponse reply \<times> world" where
  "weiboDo req w =
     (case roundTrip 0 (cancelled w) req (weiboAPI w) of
        (r, elapsed, rest) \<Rightarrow>
          (r, w\<lparr>clock := clock w + elapsed, weiboAPI := rest, requests := requests w @ [req]\<rparr>))"

definition fetchWeiboHotSearch ::
  "Context \<Rightarrow> weiboWidget \<Rightarrow> world \<Rightarrow> (error + hotSearchWithUrl list) \<times> world" where
  "fetchWeiboHotSearch c widget w =
     (case NewRequestWithContext True c ''GET'' weiboAPIURL NoBody of
        Inl err \<Rightarrow> (Inl (CreateRequestFailed err), w)
      | Inr req \<Rightarrow>
          (case weiboDo (weiboRequest req) w of
             (Fails err, w') \<Rightarrow> (Inl (RequestFailed err), w')
           | (Replies resp, w') \<Rightarrow>
               if StatusCode resp \<noteq> 200 then (Inl (WeiboStatusCode (StatusCode resp)), w')
               else (case Body resp of
                       Unreadable \<Rightarrow> (Inl ReadBodyFailed, w')
                     | Undecodable \<Rightarrow> (Inl ParseJSONFailed, w')
                     | Decodes apiResponse \<Rightarrow>
                         if OK apiResponse \<noteq> 1 then (Inl (WeiboNotOK (OK apiResponse)), w')
                         else (Inr (selectHotSearches widget apiResponse), w'))))"

definition weiboWidget_update :: "Context \<Rightarrow> weiboWidget \<Rightarrow> world \<Rightarrow> weiboWidget \<times> world" where
  "weiboWidget_update c widget w =
     (case fetchWeiboHotSearch c widget w of
        (Inl err, w') \<Rightarrow>
          (widget\<lparr>weiboWidget.widgetBase :=
             scheduleEarlyUpdate (withError err (weiboWidget.widgetBase widget))\<rparr>, w')
      | (Inr hotSearches, w') \<Rightarrow>
          (widget\<lparr>HotSearches := hotSearches, LastUpdated := clock w'\<rparr>, w'))"

definition weiboWidget_Render :: "weiboWidget \<Rightarrow> weiboWidget html \<times> weiboWidget" where
  "weiboWidget_Render widget = (renderTemplate (Some widget) weiboWidgetTemplate, widget)"

section \<open>The hot-search widget: formatting the popularity value\<close>

text \<open>
  A \<^verbatim>\<open>float64\<close> value is modelled by the rational number it denotes. The values that
  \<^verbatim>\<open>FormattedHotValue\<close> computes with are finite and at least 1, so a value is rounded to
  the 53 significant bits of the format, to nearest and to even on a tie, with no
  underflow or overflow: for \<open>x\<close> with \<open>2 ^ (b - 1) \<le> x < 2 ^ b\<close> the unit in the last
  place is \<open>2 ^ (b - 53)\<close>. \<open>bitlen n\<close> is the number of binary digits of \<open>n\<close>.
\<close>

fun bitlen :: "nat \<Rightarrow> nat" where
  "bitlen n = (if n = 0 then 0 else Suc (bitlen (n div 2)))"

declare bitlen.simps [simp del]

definition roundHalfEven :: "rat \<Rightarrow> int" where
  "roundHalfEven x =
     (let f = \<lfloor>x\<rfloor>; d = x - of_int f
      in if d < 1 / 2 then f else if 1 / 2 < d then f + 1 else if even f then f else f + 1)"

definition scale2 :: "rat \<Rightarrow> int \<Rightarrow> rat" where
  "scale2 x k = (if 0 \<le> k then x * 2 ^ nat k else x / 2 ^ nat (- k))"

definition roundToFloat64 :: "rat \<Rightarrow> rat" where
  "roundToFloat64 x =
     (let k = int (bitlen (nat \<lfloor>x\<rfloor>)) - 53
      in scale2 (of_int (roundHalfEven (scale2 x (- k)))) k)"

text \<open>The conversion \<^verbatim>\<open>float64(n)\<close> of an int64 and the division of two \<^verbatim>\<open>float64\<close>.\<close>

definition float64_of_int :: "int \<Rightarrow> rat" where
  "float64_of_int n = roundToFloat64 (of_int n)"

definition float64_div :: "rat \<Rightarrow> rat \<Rightarrow> rat" where
  "float64_div a b = roundToFloat64 (a / b)"

text \<open>The decimal digits of a natural number, and \<^verbatim>\<open>strconv.FormatInt(n, 10)\<close>.\<close>

fun showNat :: "nat \<Rightarrow> string" where
  "showNat n =
     (if n < 10 then [''0123456789'' ! n]
      else showNat (n div 10) @ [''0123456789'' ! (n mod 10)])"

declare showNat.simps [simp del]

definition FormatInt :: "int \<Rightarrow> string" where
  "FormatInt n = (if n < 0 then CHR ''-'' # showNat (nat (- n)) else showNat (nat n))"

text \<open>
  The verb \<^verbatim>\<open>%.1f\<close> of \<^verbatim>\<open>fmt.Sprintf\<close> on a non-negative value: the exact value of the
  \<^verbatim>\<open>float64\<close> is rounded to one digit after the point, to even on a tie. \<open>tenths x\<close> is
  the number of tenths printed.
\<close>

definition tenths :: "rat \<Rightarrow> nat" where
  "tenths x = nat (roundHalfEven (x * 10))"

definition Sprintf_1f :: "rat \<Rightarrow> string" where
  "Sprintf_1f x = showNat (tenths x div 10) @ ''.'' @ showNat (tenths x mod 10)"

definition FormattedHotValue :: "weiboHotSearchItem \<Rightarrow> string" where
  "FormattedHotValue item =
     (if Num item \<ge> 1000000
      then Sprintf_1f (float64_div (float64_of_int (Num item)) 1000000) @ ''M''
      else if Num item \<ge> 1000
      then Sprintf_1f (float64_div (float64_of_int (Num item)) 1000) @ ''K''
      else FormatInt (Num item))"

section \<open>The random-fact widget\<close>

definition randomFactWidgetTemplate :: template where
  "randomFactWidgetTemplate = mustParseTemplate [''random-fact.html'', ''widget-base.html'']"

definition hasAIConfig :: "randomFactWidget \<Rightarrow> bool" where
  "hasAIConfig widget = (APIKey widget \<noteq> [] \<and> Model widget \<noteq> [] \<and> APIURL widget \<noteq> [])"

text \<open>
  \<^verbatim>\<open>initialize\<close> prints a notice when the AI API is not configured, so it takes the world
  and returns its error (always \<^verbatim>\<open>nil\<close>), the widget and the world.
\<close>

definition randomFactWidget_initialize ::
  "randomFactWidget \<Rightarrow> world \<Rightarrow> error option \<times> randomFactWidget \<times> world" where
  "randomFactWidget_initialize widget w =
    (let b0 = widgetBase widget;
         w1 = widget\<lparr>widgetBase := withCacheDuration (CustomCacheDuration b0) (withTitle ''Random Fact'' b0)\<rparr>;
         w2 = (if CustomCacheDuration (widgetBase w1) = 0
               then w1\<lparr>widgetBase :=
                      withCacheDuration defaultFactCacheDuration
                        ((widgetBase w1)\<lparr>CustomCacheDuration := defaultFactCacheDuration\<rparr>)\<rparr>
               else w1);
         out = (if \<not> hasAIConfig w2 then w\<lparr>stdout := stdout w @ [AINotConfigured]\<rparr> else w);
         w3 = w2\<lparr>client := Some \<lparr>Timeout = 30 * 1000000000\<rparr>\<rparr>
     in (None, w3, out))"

text \<open>
  \<^verbatim>\<open>widget.client.Do\<close>: a \<^verbatim>\<open>nil\<close> client is a nil-pointer dereference, a panic, which
  is the result \<open>None\<close> here and in the functions that call it.
\<close>

definition factDo :: "randomFactWidget \<Rightarrow> request \<Rightarrow> world \<Rightarrow> (rawFactResponse reply \<times> world) option" where
  "factDo widget req w =
     (case client widget of
        None \<Rightarrow> None
      | Some cl \<Rightarrow>
          (case roundTrip (Timeout cl) (cancelled w) req (factAPI w) of
             (r, elapsed, rest) \<Rightarrow>
               Some (r, w\<lparr>clock := clock w + elapsed, factAPI := rest, requests := requests w @ [req]\<rparr>)))"

definition aiDo :: "randomFactWidget \<Rightarrow> request \<Rightarrow> world \<Rightarrow> (aiResponse reply \<times> world) option" where
  "aiDo widget req w =
     (case client widget of
        None \<Rightarrow> None
      | Some cl \<Rightarrow>
          (case roundTrip (Timeout cl) (cancelled w) req (aiAPI w) of
             (r, elapsed, rest) \<Rightarrow>
               Some (r, w\<lparr>clock := clock w + elapsed, aiAPI := rest, requests := requests w @ [req]\<rparr>)))"

definition fetchRawFact ::
  "randomFactWidget \<Rightarrow> world \<Rightarrow> ((error + rawFactResponse) \<times> world) option" where
  "fetchRawFact widget w =
     (case NewRequest True ''GET'' factAPIURL NoBody of
        Inl err \<Rightarrow> Some (Inl err, w)
      | Inr req \<Rightarrow>
          (case factDo widget req w of
             None \<Rightarrow> None
           | Some (Fails err, w') \<Rightarrow> Some (Inl err, w')
           | Some (Replies resp, w') \<Rightarrow>
               if StatusCode resp \<noteq> 200 then Some (Inl (FactStatusCode (StatusCode resp)), w')
               else (case Body resp of
                       Unreadable \<Rightarrow> Some (Inl BodyReadError, w')
                     | Undecodable \<Rightarrow> Some (Inl JSONDecodeError, w')
                     | Decodes factResponse \<Rightarrow> Some (Inr factResponse, w'))))"

definition processWithAI ::
  "randomFactWidget \<Rightarrow> string \<Rightarrow> world \<Rightarrow> ((error + string) \<times> world) option" where
  "processWithAI widget text w =
     (if APIKey widget = [] then Some (Inl APIKeyNotConfigured, w)
      else
        let payload = ChatCompletion (Model widget) RandomFactPrompt text False 512 ''text''
        in case NewRequest (parses w (APIURL widget)) ''POST'' (APIURL widget) payload of
             Inl err \<Rightarrow> Some (Inl err, w)
           | Inr req0 \<Rightarrow>
               let req = Header_Set ''Content-Type'' ''application/json''
                           (Header_Set ''Authorization'' (''Bearer '' @ APIKey widget) req0)
               in (case aiDo widget req w of
                     None \<Rightarrow> None
                   | Some (Fails err, w') \<Rightarrow> Some (Inl err, w')
                   | Some (Replies resp, w') \<Rightarrow>
                       if StatusCode resp \<noteq> 200 then Some (Inl (AIStatusCode (StatusCode resp)), w')
                       else (case Body resp of
                               Unreadable \<Rightarrow> Some (Inl BodyReadError, w')
                             | Undecodable \<Rightarrow> Some (Inl JSONDecodeError, w')
                             | Decodes aiResp \<Rightarrow>
                                 (case aiResponse.Error aiResp of
                                    Some e \<Rightarrow> Some (Inl (AIAPIError (aiError.Message e)), w')
                                  | None \<Rightarrow>
                                      (case Choices aiResp of
                                         [] \<Rightarrow> Some (Inl NoChoices, w')
                                       | choice # _ \<Rightarrow>
                                           Some (Inr (aiMessage.Content (aiChoice.Message choice)), w'))))))"

text \<open>
  The loop of \<^verbatim>\<open>extractModelName\<close>, from \<^verbatim>\<open>i = len - 1\<close> down to 0: the second argument
  is \<^verbatim>\<open>i + 1\<close>, and 0 is the end of the loop.
\<close>

fun lastSlashLoop :: "string \<Rightarrow> nat \<Rightarrow> string" where
  "lastSlashLoop m 0 = m"
| "lastSlashLoop m (Suc i) = (if m ! i = CHR ''/'' then drop (i + 1) m else lastSlashLoop m i)"

definition extractModelName :: "randomFactWidget \<Rightarrow> string" where
  "extractModelName widget =
     (if length (Model widget) = 0 then ''unknown''
      else lastSlashLoop (Model widget) (length (Model widget)))"

definition randomFactWidget_update ::
  "Context \<Rightarrow> randomFactWidget \<Rightarrow> world \<Rightarrow> (randomFactWidget \<times> world) option" where
  "randomFactWidget_update c widget w =
    (let cacheDuration = CustomCacheDuration (widgetBase widget)
     in if CachedData widget \<noteq> None \<and> Since (clock w) (lastUpdate widget) < cacheDuration
        then Some (widget, w)
        else
          (case fetchRawFact widget w of
             None \<Rightarrow> None
           | Some (Inl err, w1) \<Rightarrow>
               Some (widget\<lparr>widgetBase := scheduleEarlyUpdate (withError err (widgetBase widget))\<rparr>,
                     w1\<lparr>stdout := stdout w1 @ [ErrorFetchingRawFact err]\<rparr>)
           | Some (Inr rawFact, w1) \<Rightarrow>
               (case (if hasAIConfig widget
                      then (case processWithAI widget (Text rawFact) w1 of
                              None \<Rightarrow> None
                            | Some (Inl err, w2) \<Rightarrow> Some (Text rawFact, extractModelName widget, w2)
                            | Some (Inr processed, w2) \<Rightarrow> Some (processed, extractModelName widget, w2))
                      else Some (Text rawFact, ''uselessfacts.jsph.pl'', w1)) of
                  None \<Rightarrow> None
                | Some (processedContent, source, w2) \<Rightarrow>
                    Some (widget\<lparr>CachedData :=
                                   Some \<lparr>FactID = rawFactResponse.ID rawFact,
                                         FactText = Text rawFact,
                                         randomFactData.Content = processedContent,
                                         randomFactData.Source = source\<rparr>,
                                 lastUpdate := clock w2,
                                 widgetBase := scheduleNextUpdate (widgetBase widget)\<rparr>,
                          w2))))"

definition randomFactWidget_Render ::
  "randomFactWidget \<Rightarrow> world \<Rightarrow> randomFactWidget html \<times> randomFactWidget \<times> world" where
  "randomFactWidget_Render widget w =
     (if CachedData widget = None
      then
        (let widget' = widget\<lparr>widgetBase :=
                          withError NoDataAvailable ((widgetBase widget)\<lparr>ContentAvailable := False\<rparr>)\<rparr>
         in (renderTemplate None (mustParseTemplate [''widget-base.html'']), widget',
             w\<lparr>stdout := stdout w @ [NoCachedData]\<rparr>))
      else
        (let widget' = widget\<lparr>widgetBase := (widgetBase widget)\<lparr>ContentAvailable := True\<rparr>\<rparr>
         in (renderTemplate (Some widget') randomFactWidgetTemplate, widget', w)))"

section \<open>Notions used to state the properties\<close>

text \<open>
  The selection as the specification words it: an entry is kept when its display word is
  not empty and, if a category filter is configured, its label equals the category; the
  kept entries of the realtime list followed by those of the government list are cut to
  the display count when the count is positive.
\<close>

definition keptBySpec :: "string \<Rightarrow> weiboHotSearchItem \<Rightarrow> bool" where
  "keptBySpec category item = (Word item \<noteq> [] \<and> (category = [] \<or> LabelName item = category))"

definition specHotSearches ::
  "weiboWidget \<Rightarrow> weiboHotSearchItem list \<Rightarrow> weiboHotSearchItem list \<Rightarrow> weiboHotSearchItem list" where
  "specHotSearches widget realtime hotgovs =
     (let kept = filter (keptBySpec (Category widget)) (realtime @ hotgovs)
      in if ShowCount widget \<le> 0 then kept else take (nat (ShowCount widget)) kept)"

text \<open>The number of upstream fetches so far: the GET requests to the trivia endpoint.\<close>

definition factFetches :: "world \<Rightarrow> nat" where
  "factFetches w = length (filter (\<lambda>r. Method r = ''GET'' \<and> url r = factAPIURL) (requests w))"

text \<open>The condition under which \<^verbatim>\<open>update\<close> of the random-fact widget returns at once.\<close>

definition cacheValid :: "randomFactWidget \<Rightarrow> world \<Rightarrow> bool" where
  "cacheValid widget w =
     (CachedData widget \<noteq> None \<and> Since (clock w) (lastUpdate widget) < CustomCacheDuration (widgetBase widget))"

section \<open>Concrete states and inputs\<close>

text \<open>Go's zero values of the structs, a world in which nothing is scripted, and small inputs.\<close>

definition zeroBase :: widgetBase where
  "zeroBase = \<lparr>Title = [], CustomCacheDuration = 0, ContentAvailable = False,
     widgetBase.Error = None, cacheDuration = 0, scheduled = []\<rparr>"

definition zeroItem :: weiboHotSearchItem where
  "zeroItem = \<lparr>Icon = [], IconWidth = 0, IconHeight = 0, Emoticon = [], Num = 0, Note = [],
     RealPos = 0, LabelName = [], SmallIconDesc = [], SmallIconDescColor = [], Flag = 0,
     IconDesc = [], IconDescColor = [], WordScheme = [], TopicFlag = 0, Word = [], Rank = 0,
     FlagDesc = [], Monitors = [], DotIcon = 0, IsAd = 0, IconType = [], weiboHotSearchItem.ID = 0\<rparr>"

definition zeroHotgov :: weiboHotgov where
  "zeroHotgov = \<lparr>weiboHotgov.SmallIconDesc = [], weiboHotgov.SmallIconDescColor = [],
     weiboHotgov.IconHeight = 0, IsHot = 0, Pos = 0, weiboHotgov.TopicFlag = 0,
     weiboHotgov.Word = [], IsGov = 0, weiboHotgov.Note = [], Name = [], weiboHotgov.URL = [],
     weiboHotgov.Flag = 0, weiboHotgov.IconWidth = 0, Stime = 0, weiboHotgov.IconDesc = [],
     weiboHotgov.Icon = [], weiboHotgov.IconDescColor = [], Mid = []\<rparr>"

definition zeroWeiboWidget :: weiboWidget where
  "zeroWeiboWidget = \<lparr>weiboWidget.widgetBase = zeroBase, ShowCount = 0, Limit = 0, Category = [],
     RefreshInterval = 0, HotSearches = [], LastUpdated = 0\<rparr>"

definition zeroFactWidget :: randomFactWidget where
  "zeroFactWidget = \<lparr>widgetBase = zeroBase, APIKey = [], Model = [], APIURL = [],
     client = None, CachedData = None, lastUpdate = 0\<rparr>"

definition quietWorld :: world where
  "quietWorld = \<lparr>clock = 1000, cancelled = {}, parses = (\<lambda>u. True), weiboAPI = [],
     factAPI = [], aiAPI = [], requests = [], stdout = []\<rparr>"

definition topic :: "string \<Rightarrow> string \<Rightarrow> weiboHotSearchItem" where
  "topic word label = zeroItem\<lparr>Word := word, WordScheme := CHR ''#'' # word @ ''#'', LabelName := label\<rparr>"

definition payload :: "weiboHotSearchItem list \<Rightarrow> weiboHotSearchItem list \<Rightarrow> weiboAPIResponse" where
  "payload realtime hotgovs =
     \<lparr>OK = 1, Data = \<lparr>Realtime = realtime, Hotgovs = hotgovs, Hotgov = zeroHotgov,
                       Logs = \<lparr>ActCode = 0, Ext = []\<rparr>\<rparr>\<rparr>"

definition answers :: "'a \<Rightarrow> 'a exchange" where
  "answers x = \<lparr>latency = 7, reply = Replies \<lparr>StatusCode = 200, Body = Decodes x\<rparr>\<rparr>"

definition answersStatus :: "int \<Rightarrow> 'a exchange" where
  "answersStatus code = \<lparr>latency = 7, reply = Replies \<lparr>StatusCode = code, Body = Undecodable\<rparr>\<rparr>"

definition hotSearchWorld :: world where
  "hotSearchWorld = quietWorld\<lparr>weiboAPI := [answers (payload [topic ''a b'' ''x'', topic [] ''x'', topic ''c'' ''y''] [topic ''g'' ''x''])]\<rparr>"

text \<open>A widget configured for AI rewriting, a fact, and a widget after \<^verbatim>\<open>initialize\<close>.\<close>

definition aiConfig :: randomFactWidget where
  "aiConfig = zeroFactWidget\<lparr>APIKey := ''sk-1'', Model := ''Qwen/Qwen3-8B'',
     APIURL := ''https://api.siliconflow.cn/v1/chat/completions''\<rparr>"

definition penguins :: rawFactResponse where
  "penguins = \<lparr>rawFactResponse.ID = ''p1'', Text = ''Penguins actually have knees.'',
     rawFactResponse.Source = ''djtech.net'', SourceURL = ''http://www.djtech.net/humor/useless_facts.htm'',
     Language = ''en'', Permalink = ''https://uselessfacts.jsph.pl/api/v2/facts/p1''\<rparr>"

definition initialized :: "randomFactWidget \<Rightarrow> randomFactWidget" where
  "initialized cfg = fst (snd (randomFactWidget_initialize cfg quietWorld))"

text \<open>The request \<^verbatim>\<open>fetchRawFact\<close> builds.\<close>

definition factRequest :: request where
  "factRequest = \<lparr>Method = ''GET'', url = factAPIURL, ctx = Background, header = [], body = NoBody\<rparr>"

text \<open>A widget holding a record cached at time 400, and a world three hours later.\<close>

definition staleWidget :: randomFactWidget where
  "staleWidget = (initialized zeroFactWidget)
     \<lparr>CachedData := Some \<lparr>FactID = ''p0'', FactText = ''Old.'', randomFactData.Content = ''Old.'',
                            randomFactData.Source = ''uselessfacts.jsph.pl''\<rparr>,
      lastUpdate := 400\<rparr>"

definition laterWorld :: world where
  "laterWorld = quietWorld\<lparr>clock := 1000 + 3 * Hour\<rparr>"

text \<open>
  A series of \<^verbatim>\<open>update\<close> calls of the random-fact widget, each made after the clock
  has advanced by the given number of nanoseconds and with the given context.
\<close>

fun factUpdates ::
  "(Context \<times> nat) list \<Rightarrow> randomFactWidget \<Rightarrow> world \<Rightarrow> (randomFactWidget \<times> world) option" where
  "factUpdates [] widget w = Some (widget, w)"
| "factUpdates ((c, d) # calls) widget w =
     (case randomFactWidget_update c widget (w\<lparr>clock := clock w + int d\<rparr>) of
        None \<Rightarrow> None
      | Some (widget', w') \<Rightarrow> factUpdates calls widget' w')"

text \<open>
  The calls the host makes on the hot-search widget after \<^verbatim>\<open>initialize\<close>, and a series
  of them; the fragment \<^verbatim>\<open>Render\<close> returns goes to the host.
\<close>

datatype weiboCall = CallUpdate Context | CallRender

fun weiboCalls :: "weiboCall list \<Rightarrow> weiboWidget \<Rightarrow> world \<Rightarrow> weiboWidget \<times> world" where
  "weiboCalls [] widget w = (widget, w)"
| "weiboCalls (CallUpdate c # calls) widget w =
     (case weiboWidget_update c widget w of (widget', w') \<Rightarrow> weiboCalls calls widget' w')"
| "weiboCalls (CallRender # calls) widget w =
     weiboCalls calls (snd (weiboWidget_Render widget)) w"

text \<open>
  A configuration with a negative cache duration and a cached record; the widget after a
  \<^verbatim>\<open>Render\<close> without data followed by a successful \<^verbatim>\<open>update\<close>; a world in which context 1
  is cancelled.
\<close>

definition negativeConfig :: randomFactWidget where
  "negativeConfig = staleWidget\<lparr>widgetBase := (widgetBase staleWidget)\<lparr>CustomCacheDuration := - 1\<rparr>\<rparr>"

definition afterFirstFetch :: randomFactWidget where
  "afterFirstFetch =
     (case randomFactWidget_update Background
             (fst (snd (randomFactWidget_Render (initialized zeroFactWidget) quietWorld)))
             (quietWorld\<lparr>factAPI := [answers penguins]\<rparr>) of
        None \<Rightarrow> zeroFactWidget
      | Some (widget, w) \<Rightarrow> widget)"

definition cancelledWorld :: world where
  "cancelledWorld = quietWorld\<lparr>cancelled := {1}, factAPI := [answers penguins],
     weiboAPI := [answers (payload [topic ''a'' ''x''] [])]\<rparr>"

text \<open>Reading a string of decimal digits back as a number.\<close>

definition readNat :: "string \<Rightarrow> nat" where
  "readNat s = foldl (\<lambda>a c. 10 * a + (of_char c - 48)) 0 s"

text \<open>An item with a given popularity value.\<close>

definition hot :: "int \<Rightarrow> weiboHotSearchItem" where
  "hot n = zeroItem\<lparr>Num := n\<rparr>"

section \<open>Properties\<close>

text \<open>
  Claim C2. For every configuration, the hot-search widget's \<^verbatim>\<open>initialize\<close> sets the
  effective display count thus: a positive \<^verbatim>\<open>limit\<close> replaces \<^verbatim>\<open>show-count\<close>; the
  resulting value becomes 10 when it is at most 0 (an unset field is 0), 50 when it is
  above 50, and is kept otherwise. \<^verbatim>\<open>initialize\<close> returns no error.
\<close>

theorem weiboWidget_initialize_ShowCount:
  "fst (weiboWidget_initialize widget) = None \<and>
   ShowCount (snd (weiboWidget_initialize widget)) =
     (let n = (if Limit widget > 0 then Limit widget else ShowCount widget)
      in if n \<le> 0 then 10 else if n > 50 then 50 else n)"
  by (simp add: weiboWidget_initialize_def Let_def)

lemma filterHotSearches_filter: "filterHotSearches category items = filter (keptBySpec category) items"
  by (induction items) (auto simp: keptBySpec_def)

lemma applyLimit_take: "applyLimit n xs = (if n \<le> 0 then xs else take (nat n) xs)"
  by (auto simp: applyLimit_def)

lemma selectHotSearches_spec:
  "map weiboHotSearchItem (selectHotSearches widget p) =
     specHotSearches widget (Realtime (Data p)) (Hotgovs (Data p))"
  by (simp add: selectHotSearches_def specHotSearches_def Let_def filterHotSearches_filter
      applyLimit_take withSearchURL_def comp_def)

lemma fetch_ok:
  assumes "c \<noteq> NilCtx" "\<not> is_cancelled (cancelled w) c"
    and "weiboAPI w = \<lparr>latency = t, reply = Replies \<lparr>StatusCode = 200, Body = Decodes p\<rparr>\<rparr> # rest"
    and "OK p = 1"
  shows "fst (fetchWeiboHotSearch c widget w) = Inr (selectHotSearches widget p)"
  using assms
  by (simp add: fetchWeiboHotSearch_def NewRequestWithContext_def weiboDo_def roundTrip_def
      weiboRequest_def Header_Set_def)

lemma update_cached:
  assumes "CachedData widget \<noteq> None"
    and "Since (clock w) (lastUpdate widget) < CustomCacheDuration (widgetBase widget)"
  shows "randomFactWidget_update c widget w = Some (widget, w)"
  using assms by (simp add: randomFactWidget_update_def)

lemma fetchRawFact_requests:
  "fetchRawFact widget w = Some (r, w') \<Longrightarrow>
     requests w' = requests w @ [\<lparr>Method = ''GET'', url = factAPIURL, ctx = Background, header = [], body = NoBody\<rparr>]"
  by (auto simp: fetchRawFact_def NewRequest_def NewRequestWithContext_def factDo_def
      split: option.splits prod.splits reply.splits if_splits response_body.splits)

lemma fetchRawFact_clock:
  "fetchRawFact widget w = Some (r, w') \<Longrightarrow> clock w \<le> clock w'"
  by (auto simp: fetchRawFact_def NewRequest_def NewRequestWithContext_def factDo_def roundTrip_def
      split: option.splits prod.splits reply.splits if_splits response_body.splits list.splits)

lemma processWithAI_requests:
  "processWithAI widget t w = Some (r, w') \<Longrightarrow>
     requests w' = requests w \<or> (\<exists>req. Method req = ''POST'' \<and> requests w' = requests w @ [req])"
  by (auto simp: processWithAI_def NewRequest_def NewRequestWithContext_def aiDo_def Header_Set_def Let_def
      split: option.splits prod.splits reply.splits if_splits response_body.splits list.splits)

lemma processWithAI_clock:
  "processWithAI widget t w = Some (r, w') \<Longrightarrow> clock w \<le> clock w'"
  by (auto simp: processWithAI_def NewRequest_def NewRequestWithContext_def aiDo_def roundTrip_def Let_def
      split: option.splits prod.splits reply.splits if_splits response_body.splits list.splits)

lemma update_fetch_failed:
  assumes "\<not> cacheValid widget w" "fetchRawFact widget w = Some (Inl err, w1)"
  shows "randomFactWidget_update c widget w =
     Some (widget\<lparr>widgetBase := scheduleEarlyUpdate (withError err (widgetBase widget))\<rparr>,
           w1\<lparr>stdout := stdout w1 @ [ErrorFetchingRawFact err]\<rparr>)"
  using assms by (auto simp: randomFactWidget_update_def cacheValid_def)

lemma update_ai_failed:
  assumes "\<not> cacheValid widget w" "fetchRawFact widget w = Some (Inr rawFact, w1)"
    "hasAIConfig widget" "processWithAI widget (Text rawFact) w1 = Some (Inl err, w2)"
  shows "randomFactWidget_update c widget w =
     Some (widget\<lparr>CachedData :=
                     Some \<lparr>FactID = rawFactResponse.ID rawFact, FactText = Text rawFact,
                           randomFactData.Content = Text rawFact,
                           randomFactData.Source = extractModelName widget\<rparr>,
                   lastUpdate := clock w2,
                   widgetBase := scheduleNextUpdate (widgetBase widget)\<rparr>, w2)"
  using assms by (auto simp: randomFactWidget_update_def cacheValid_def)

lemma update_ai_ok:
  assumes "\<not> cacheValid widget w" "fetchRawFact widget w = Some (Inr rawFact, w1)"
    "hasAIConfig widget" "processWithAI widget (Text rawFact) w1 = Some (Inr processed, w2)"
  shows "randomFactWidget_update c widget w =
     Some (widget\<lparr>CachedData :=
                     Some \<lparr>FactID = rawFactResponse.ID rawFact, FactText = Text rawFact,
                           randomFactData.Content = processed,
                           randomFactData.Source = extractModelName widget\<rparr>,
                   lastUpdate := clock w2,
                   widgetBase := scheduleNextUpdate (widgetBase widget)\<rparr>, w2)"
  using assms by (auto simp: randomFactWidget_update_def cacheValid_def)

lemma update_no_ai:
  assumes "\<not> cacheValid widget w" "fetchRawFact widget w = Some (Inr rawFact, w1)"
    "\<not> hasAIConfig widget"
  shows "randomFactWidget_update c widget w =
     Some (widget\<lparr>CachedData :=
                     Some \<lparr>FactID = rawFactResponse.ID rawFact, FactText = Text rawFact,
                           randomFactData.Content = Text rawFact,
                           randomFactData.Source = ''uselessfacts.jsph.pl''\<rparr>,
                   lastUpdate := clock w1,
                   widgetBase := scheduleNextUpdate (widgetBase widget)\<rparr>, w1)"
  using assms by (auto simp: randomFactWidget_update_def cacheValid_def)

lemma lastSlashLoop_no_slash:
  "CHR ''/'' \<notin> set (take n m) \<Longrightarrow> n \<le> length m \<Longrightarrow> lastSlashLoop m n = m"
proof (induction n)
  case 0 then show ?case by simp
next
  case (Suc n)
  then have "m ! n \<in> set (take (Suc n) m)" by (auto simp: in_set_conv_nth intro!: exI[of _ n])
  with Suc show ?case by (auto simp: take_Suc_conv_app_nth)
qed

lemma lastSlashLoop_suffix:
  "lastSlashLoop (pre @ CHR ''/'' # suf) (length pre + 1 + k) = suf"
  if "CHR ''/'' \<notin> set suf" "k \<le> length suf"
  using that
proof (induction k)
  case 0 then show ?case by (simp add: nth_append)
next
  case (Suc k)
  then have "(pre @ CHR ''/'' # suf) ! (length pre + 1 + k) = suf ! k" by (simp add: nth_append)
  moreover have "suf ! k \<in> set suf" using Suc by simp
  ultimately have "(pre @ CHR ''/'' # suf) ! (length pre + 1 + k) \<noteq> CHR ''/''" using Suc by metis
  with Suc show ?case by simp
qed

lemma extractModelName_spec:
  "(Model widget = [] \<longrightarrow> extractModelName widget = ''unknown'') \<and>
   (Model widget \<noteq> [] \<and> CHR ''/'' \<notin> set (Model widget) \<longrightarrow> extractModelName widget = Model widget) \<and>
   (\<forall>pre suf. Model widget = pre @ CHR ''/'' # suf \<and> CHR ''/'' \<notin> set suf \<longrightarrow> extractModelName widget = suf)"
proof (intro conjI impI allI)
  show "extractModelName widget = ''unknown''" if "Model widget = []"
    using that by (simp add: extractModelName_def)
  show "extractModelName widget = Model widget" if "Model widget \<noteq> [] \<and> CHR ''/'' \<notin> set (Model widget)"
    using that lastSlashLoop_no_slash[of "length (Model widget)" "Model widget"] by (simp add: extractModelName_def)
  show "extractModelName widget = suf" if "Model widget = pre @ CHR ''/'' # suf \<and> CHR ''/'' \<notin> set suf" for pre suf
    using that lastSlashLoop_suffix[of suf "length suf" pre] by (simp add: extractModelName_def)
qed

lemma factFetches_fetch:
  "fetchRawFact widget w = Some (r, w') \<Longrightarrow> factFetches w' = factFetches w + 1"
  by (drule fetchRawFact_requests) (simp add: factFetches_def)

lemma factFetches_ai:
  "processWithAI widget t w = Some (r, w') \<Longrightarrow> factFetches w' = factFetches w"
  by (drule processWithAI_requests) (auto simp: factFetches_def)

lemma update_fetched:
  assumes nv: "\<not> cacheValid widget w" and f: "fetchRawFact widget w = Some (Inr rawFact, w')"
    and u: "randomFactWidget_update c widget w = Some (widget1, w1)"
  shows "CachedData widget1 \<noteq> None \<and> lastUpdate widget1 = clock w1 \<and>
     CustomCacheDuration (widgetBase widget1) = CustomCacheDuration (widgetBase widget) \<and>
     client widget1 = client widget \<and>
     factFetches w1 = factFetches w + 1"
proof (cases "hasAIConfig widget")
  case False
  from update_no_ai[OF nv f False, of c] u factFetches_fetch[OF f]
  show ?thesis by (auto simp: scheduleNextUpdate_def)
next
  case True
  show ?thesis
  proof (cases "processWithAI widget (Text rawFact) w'")
    case None
    with nv f True u show ?thesis by (auto simp: randomFactWidget_update_def cacheValid_def)
  next
    case (Some a)
    obtain r w2 where a: "a = (r, w2)" by (cases a)
    show ?thesis
    proof (cases r)
      case (Inl err)
      from update_ai_failed[OF nv f True, of err w2 c] u Some a Inl
        factFetches_fetch[OF f] factFetches_ai[of widget "Text rawFact" w' r w2]
      show ?thesis by (auto simp: scheduleNextUpdate_def)
    next
      case (Inr p)
      from update_ai_ok[OF nv f True, of p w2 c] u Some a Inr
        factFetches_fetch[OF f] factFetches_ai[of widget "Text rawFact" w' r w2]
      show ?thesis by (auto simp: scheduleNextUpdate_def)
    qed
  qed
qed

lemma Since_advance: "Since (t + int d) t \<le> int d"
  by (simp add: Since_def minDuration_def maxDuration_def)

lemma topic_simps [simp]: "Word (topic w l) = w" "LabelName (topic w l) = l"
  "WordScheme (topic w l) = CHR ''#'' # w @ ''#''"
  by (simp_all add: topic_def)

text \<open>
  Claim C1. When the request of \<^verbatim>\<open>fetchWeiboHotSearch\<close> is answered with status 200 and a
  payload that decodes with \<^verbatim>\<open>ok = 1\<close>, the fetch returns the realtime entries followed by
  the government entries, in the provider's order, without the entries whose display word
  is empty, without the entries whose label differs from the configured category when one
  is configured, cut to the display count when the count is positive; every entry carries
  its search URL. When all words are non-empty, no category is configured and the count is
  positive, the result has exactly min (N + M) count items.
\<close>

theorem fetchWeiboHotSearch_selects:
  assumes "c \<noteq> NilCtx" "\<not> is_cancelled (cancelled w) c"
    and "weiboAPI w = \<lparr>latency = t, reply = Replies \<lparr>StatusCode = 200, Body = Decodes p\<rparr>\<rparr> # rest"
    and "OK p = 1"
  shows "\<exists>hs. fst (fetchWeiboHotSearch c widget w) = Inr hs \<and>
      map weiboHotSearchItem hs = specHotSearches widget (Realtime (Data p)) (Hotgovs (Data p)) \<and>
      (\<forall>h \<in> set hs. hotSearchWithUrl.URL h =
          ''https://s.weibo.com/weibo?q='' @ QueryEscape (WordScheme (weiboHotSearchItem h))) \<and>
      ((\<forall>item \<in> set (Realtime (Data p) @ Hotgovs (Data p)). Word item \<noteq> []) \<and>
        Category widget = [] \<and> 0 < ShowCount widget \<longrightarrow>
        length hs = min (length (Realtime (Data p)) + length (Hotgovs (Data p))) (nat (ShowCount widget)))"
proof -
  let ?hs = "selectHotSearches widget p"
  have 1: "fst (fetchWeiboHotSearch c widget w) = Inr ?hs" using assms by (rule fetch_ok)
  have 2: "map weiboHotSearchItem ?hs = specHotSearches widget (Realtime (Data p)) (Hotgovs (Data p))"
    by (rule selectHotSearches_spec)
  have 3: "\<forall>h \<in> set ?hs. hotSearchWithUrl.URL h =
          ''https://s.weibo.com/weibo?q='' @ QueryEscape (WordScheme (weiboHotSearchItem h))"
    by (auto simp: selectHotSearches_def withSearchURL_def Let_def)
  have 4: "length ?hs = min (length (Realtime (Data p)) + length (Hotgovs (Data p))) (nat (ShowCount widget))"
    if "\<forall>item \<in> set (Realtime (Data p) @ Hotgovs (Data p)). Word item \<noteq> []"
      "Category widget = []" "0 < ShowCount widget"
  proof -
    have "filter (keptBySpec []) (Realtime (Data p) @ Hotgovs (Data p)) = Realtime (Data p) @ Hotgovs (Data p)"
      using that(1) by (simp add: keptBySpec_def)
    then have eq: "map weiboHotSearchItem ?hs = take (nat (ShowCount widget)) (Realtime (Data p) @ Hotgovs (Data p))"
      using that(2,3) by (simp add: 2 specHotSearches_def Let_def del: filter_append)
    have "length ?hs = length (map weiboHotSearchItem ?hs)" by simp
    also have "\<dots> = length (take (nat (ShowCount widget)) (Realtime (Data p) @ Hotgovs (Data p)))"
      by (simp only: eq)
    also have "\<dots> = min (length (Realtime (Data p)) + length (Hotgovs (Data p))) (nat (ShowCount widget))"
      by (simp add: min.commute del: take_append)
    finally show ?thesis .
  qed
  show ?thesis using 1 2 3 4 by blast
qed

theorem fetchWeiboHotSearch_selects_witness:
  "Background \<noteq> NilCtx \<and> \<not> is_cancelled (cancelled hotSearchWorld) Background \<and>
   (\<exists>hs. fst (fetchWeiboHotSearch Background (zeroWeiboWidget\<lparr>ShowCount := 2, Category := ''x''\<rparr>) hotSearchWorld) = Inr hs \<and>
         map weiboHotSearchItem hs = [topic ''a b'' ''x'', topic ''g'' ''x'']) \<and>
   (\<exists>hs. fst (fetchWeiboHotSearch Background (zeroWeiboWidget\<lparr>ShowCount := 2\<rparr>)
            (quietWorld\<lparr>weiboAPI := [answers (payload [topic ''a b'' ''x'', topic ''c'' ''y''] [topic ''g'' ''x''])]\<rparr>)) = Inr hs \<and>
         map weiboHotSearchItem hs = [topic ''a b'' ''x'', topic ''c'' ''y''] \<and> length hs = 2) \<and>
   QueryEscape (WordScheme (topic ''a b'' ''x'')) = ''%23a+b%23''"
proof -
  let ?p = "payload [topic ''a b'' ''x'', topic [] ''x'', topic ''c'' ''y''] [topic ''g'' ''x'']"
  let ?q = "payload [topic ''a b'' ''x'', topic ''c'' ''y''] [topic ''g'' ''x'']"
  let ?w = "quietWorld\<lparr>weiboAPI := [answers ?q]\<rparr>"
  have h1: "Background \<noteq> NilCtx" by simp
  have h2: "\<not> is_cancelled (cancelled hotSearchWorld) Background" "\<not> is_cancelled (cancelled ?w) Background"
    by (simp_all add: is_cancelled_def)
  have h3: "weiboAPI hotSearchWorld = [\<lparr>latency = 7, reply = Replies \<lparr>StatusCode = 200, Body = Decodes ?p\<rparr>\<rparr>]"
    "weiboAPI ?w = [\<lparr>latency = 7, reply = Replies \<lparr>StatusCode = 200, Body = Decodes ?q\<rparr>\<rparr>]"
    by (simp_all add: hotSearchWorld_def quietWorld_def answers_def)
  have h4: "OK ?p = 1" "OK ?q = 1" by (simp_all add: payload_def)
  from fetchWeiboHotSearch_selects[OF h1 h2(1) h3(1) h4(1), of "zeroWeiboWidget\<lparr>ShowCount := 2, Category := ''x''\<rparr>"]
  have a: "\<exists>hs. fst (fetchWeiboHotSearch Background (zeroWeiboWidget\<lparr>ShowCount := 2, Category := ''x''\<rparr>) hotSearchWorld) = Inr hs \<and>
         map weiboHotSearchItem hs = [topic ''a b'' ''x'', topic ''g'' ''x'']"
    by (auto simp: specHotSearches_def keptBySpec_def payload_def zeroWeiboWidget_def)
  from fetchWeiboHotSearch_selects[OF h1 h2(2) h3(2) h4(2), of "zeroWeiboWidget\<lparr>ShowCount := 2\<rparr>"]
  have b: "\<exists>hs. fst (fetchWeiboHotSearch Background (zeroWeiboWidget\<lparr>ShowCount := 2\<rparr>) ?w) = Inr hs \<and>
         map weiboHotSearchItem hs = [topic ''a b'' ''x'', topic ''c'' ''y''] \<and> length hs = 2"
    by (auto simp: specHotSearches_def keptBySpec_def payload_def zeroWeiboWidget_def)
  have c: "QueryEscape (WordScheme (topic ''a b'' ''x'')) = ''%23a+b%23''"
    by (simp add: QueryEscape_def escapeByte_def shouldEscape_def upperhex_def)
  show ?thesis using h1 h2(1) a b c by blast
qed

text \<open>
  Claim C3. When a cached record exists and the time since the last update is strictly
  less than the cache duration, \<^verbatim>\<open>update\<close> of the random-fact widget changes neither the
  widget nor the world: no request is made, nothing is printed. Hence a call that fetched a
  fact, followed by a call made \<open>d\<close> nanoseconds later with \<open>d\<close> less than the cache
  duration, make exactly one upstream fetch together.
\<close>

theorem update_within_cache_window:
  "(CachedData widget \<noteq> None \<and>
    Since (clock w) (lastUpdate widget) < CustomCacheDuration (widgetBase widget) \<longrightarrow>
      randomFactWidget_update c widget w = Some (widget, w)) \<and>
   (\<not> cacheValid widget0 w0 \<and> fetchRawFact widget0 w0 = Some (Inr rawFact, w') \<and>
    randomFactWidget_update c widget0 w0 = Some (widget1, w1) \<and>
    int d < CustomCacheDuration (widgetBase widget0) \<longrightarrow>
      randomFactWidget_update c' widget1 (w1\<lparr>clock := clock w1 + int d\<rparr>) =
        Some (widget1, w1\<lparr>clock := clock w1 + int d\<rparr>) \<and>
      factFetches (w1\<lparr>clock := clock w1 + int d\<rparr>) = factFetches w0 + 1)"
proof (intro conjI impI)
  assume "CachedData widget \<noteq> None \<and>
    Since (clock w) (lastUpdate widget) < CustomCacheDuration (widgetBase widget)"
  then show "randomFactWidget_update c widget w = Some (widget, w)"
    by (simp add: update_cached)
next
  assume a: "\<not> cacheValid widget0 w0 \<and> fetchRawFact widget0 w0 = Some (Inr rawFact, w') \<and>
    randomFactWidget_update c widget0 w0 = Some (widget1, w1) \<and>
    int d < CustomCacheDuration (widgetBase widget0)"
  then have 1: "CachedData widget1 \<noteq> None" "lastUpdate widget1 = clock w1"
    "CustomCacheDuration (widgetBase widget1) = CustomCacheDuration (widgetBase widget0)"
    "factFetches w1 = factFetches w0 + 1"
    using update_fetched[of widget0 w0 rawFact w' c widget1 w1] by auto
  let ?w2 = "w1\<lparr>clock := clock w1 + int d\<rparr>"
  have "Since (clock ?w2) (lastUpdate widget1) < CustomCacheDuration (widgetBase widget1)"
    using Since_advance[of "clock w1" d] a 1 by simp
  with 1 show "randomFactWidget_update c' widget1 ?w2 = Some (widget1, ?w2)"
    by (simp add: update_cached)
  show "factFetches ?w2 = factFetches w0 + 1" using 1 by (simp add: factFetches_def)
qed

text \<open>The definitions that evaluate the random-fact widget on a concrete input.\<close>

lemmas fact_run_defs =
  randomFactWidget_update_def fetchRawFact_def processWithAI_def factDo_def aiDo_def
  NewRequest_def NewRequestWithContext_def roundTrip_def is_cancelled_def Header_Set_def
  hasAIConfig_def randomFactWidget_initialize_def initialized_def
  withTitle_def withCacheDuration_def withError_def scheduleEarlyUpdate_def scheduleNextUpdate_def
  zeroFactWidget_def zeroBase_def quietWorld_def answers_def answersStatus_def aiConfig_def
  Since_def minDuration_def maxDuration_def defaultFactCacheDuration_def Hour_def Minute_def
  cacheValid_def Let_def

lemma processWithAI_status:
  assumes "client widget \<noteq> None" "aiAPI w = x # rest" "reply x = Replies resp" "StatusCode resp \<noteq> 200"
  shows "\<exists>err w'. processWithAI widget t w = Some (Inl err, w')"
  using assms
  by (auto simp: processWithAI_def NewRequest_def NewRequestWithContext_def aiDo_def roundTrip_def
      is_cancelled_def Header_Set_def Let_def)

text \<open>
  Claim update_survives_rewrite_failure. When AI rewriting is configured, the fact is fetched and the rewrite call
  fails, \<^verbatim>\<open>update\<close> succeeds: the cached record is replaced by one whose content is the
  raw fact text and whose source is \<^verbatim>\<open>extractModelName\<close>, the timestamp is renewed, no
  error is stored and the next regular update is scheduled. A reply whose status is not
  200 is such a failure. \<^verbatim>\<open>extractModelName\<close> is \<^verbatim>\<open>unknown\<close> for the empty identifier, the
  identifier itself when it has no \<^verbatim>\<open>/\<close>, and what follows its last \<^verbatim>\<open>/\<close> otherwise.
\<close>

theorem update_survives_rewrite_failure:
  "(hasAIConfig widget \<and> \<not> cacheValid widget w \<and>
    fetchRawFact widget w = Some (Inr rawFact, w1) \<and>
    processWithAI widget (Text rawFact) w1 = Some (Inl err, w2) \<longrightarrow>
     (\<exists>widget'. randomFactWidget_update c widget w = Some (widget', w2) \<and>
        CachedData widget' =
          Some \<lparr>FactID = rawFactResponse.ID rawFact, FactText = Text rawFact,
                randomFactData.Content = Text rawFact,
                randomFactData.Source = extractModelName widget\<rparr> \<and>
        lastUpdate widget' = clock w2 \<and>
        widgetBase.Error (widgetBase widget') = widgetBase.Error (widgetBase widget) \<and>
        scheduled (widgetBase widget') = NextUpdate # scheduled (widgetBase widget))) \<and>
   (client widget \<noteq> None \<and> aiAPI w = x # rest \<and> reply x = Replies resp \<and> StatusCode resp \<noteq> 200 \<longrightarrow>
     (\<exists>err w'. processWithAI widget t w = Some (Inl err, w'))) \<and>
   (Model widget = [] \<longrightarrow> extractModelName widget = ''unknown'') \<and>
   (Model widget \<noteq> [] \<and> CHR ''/'' \<notin> set (Model widget) \<longrightarrow> extractModelName widget = Model widget) \<and>
   (\<forall>pre suf. Model widget = pre @ CHR ''/'' # suf \<and> CHR ''/'' \<notin> set suf \<longrightarrow> extractModelName widget = suf)"
proof (intro conjI)
  show "hasAIConfig widget \<and> \<not> cacheValid widget w \<and>
    fetchRawFact widget w = Some (Inr rawFact, w1) \<and>
    processWithAI widget (Text rawFact) w1 = Some (Inl err, w2) \<longrightarrow>
     (\<exists>widget'. randomFactWidget_update c widget w = Some (widget', w2) \<and>
        CachedData widget' =
          Some \<lparr>FactID = rawFactResponse.ID rawFact, FactText = Text rawFact,
                randomFactData.Content = Text rawFact,
                randomFactData.Source = extractModelName widget\<rparr> \<and>
        lastUpdate widget' = clock w2 \<and>
        widgetBase.Error (widgetBase widget') = widgetBase.Error (widgetBase widget) \<and>
        scheduled (widgetBase widget') = NextUpdate # scheduled (widgetBase widget))"
    by (auto simp: update_ai_failed scheduleNextUpdate_def)
  show "client widget \<noteq> None \<and> aiAPI w = x # rest \<and> reply x = Replies resp \<and> StatusCode resp \<noteq> 200 \<longrightarrow>
     (\<exists>err w'. processWithAI widget t w = Some (Inl err, w'))"
    using processWithAI_status[of widget w x rest resp t] by blast
qed (use extractModelName_spec[of widget] in blast)+

theorem update_survives_rewrite_failure_witness:
  "hasAIConfig (initialized aiConfig) \<and>
   (\<exists>widget' w2. randomFactWidget_update Background (initialized aiConfig)
        (quietWorld\<lparr>factAPI := [answers penguins], aiAPI := [answersStatus 500]\<rparr>) = Some (widget', w2) \<and>
     CachedData widget' =
       Some \<lparr>FactID = ''p1'', FactText = ''Penguins actually have knees.'',
             randomFactData.Content = ''Penguins actually have knees.'',
             randomFactData.Source = ''Qwen3-8B''\<rparr> \<and>
     widgetBase.Error (widgetBase widget') = None \<and>
     scheduled (widgetBase widget') = [NextUpdate])"
proof -
  let ?W = "initialized aiConfig"
  let ?w = "quietWorld\<lparr>factAPI := [answers penguins], aiAPI := [answersStatus 500]\<rparr>"
  let ?w1 = "?w\<lparr>clock := 1007, factAPI := [], requests := [factRequest]\<rparr>"
  have ai: "hasAIConfig ?W" by (simp add: fact_run_defs)
  have nv: "\<not> cacheValid ?W ?w" by (simp add: fact_run_defs)
  have f: "fetchRawFact ?W ?w = Some (Inr penguins, ?w1)"
    by (simp add: fact_run_defs factRequest_def)
  have "client ?W \<noteq> None" "aiAPI ?w1 = answersStatus 500 # []"
    "reply (answersStatus 500 :: aiResponse exchange) = Replies \<lparr>StatusCode = 500, Body = Undecodable\<rparr>"
    "StatusCode \<lparr>StatusCode = 500, Body = (Undecodable :: aiResponse response_body)\<rparr> \<noteq> 200"
    by (simp_all add: fact_run_defs)
  with update_survives_rewrite_failure[where widget = ?W and w = ?w1 and x = "answersStatus 500" and rest = "[]"
      and resp = "\<lparr>StatusCode = 500, Body = Undecodable\<rparr>" and t = "Text penguins"]
  obtain err w2 where p: "processWithAI ?W (Text penguins) ?w1 = Some (Inl err, w2)"
    by blast
  have m: "Model ?W = ''Qwen'' @ CHR ''/'' # ''Qwen3-8B'' \<and> CHR ''/'' \<notin> set ''Qwen3-8B''"
    by (simp add: fact_run_defs)
  with update_survives_rewrite_failure[where widget = ?W] have n: "extractModelName ?W = ''Qwen3-8B''" by blast
  have e: "widgetBase.Error (widgetBase ?W) = None" "scheduled (widgetBase ?W) = []"
    "rawFactResponse.ID penguins = ''p1''" "Text penguins = ''Penguins actually have knees.''"
    by (simp_all add: fact_run_defs penguins_def)
  from update_survives_rewrite_failure[where widget = ?W and w = ?w and rawFact = penguins and ?w1.0 = ?w1 and err = err
      and ?w2.0 = w2 and c = Background] ai nv f p
  obtain widget' where "randomFactWidget_update Background ?W ?w = Some (widget', w2)"
    "CachedData widget' =
          Some \<lparr>FactID = rawFactResponse.ID penguins, FactText = Text penguins,
                randomFactData.Content = Text penguins,
                randomFactData.Source = extractModelName ?W\<rparr>"
    "widgetBase.Error (widgetBase widget') = widgetBase.Error (widgetBase ?W)"
    "scheduled (widgetBase widget') = NextUpdate # scheduled (widgetBase ?W)"
    by blast
  with ai n e show ?thesis by auto
qed

text \<open>The definitions that evaluate the hot-search widget on a concrete input.\<close>

lemmas weibo_run_defs =
  weiboWidget_update_def fetchWeiboHotSearch_def weiboDo_def weiboRequest_def
  NewRequestWithContext_def roundTrip_def is_cancelled_def Header_Set_def
  withError_def scheduleEarlyUpdate_def zeroWeiboWidget_def zeroBase_def quietWorld_def
  answers_def answersStatus_def

text \<open>
  Claim update_failure_keeps_cache. For both widgets, when the upstream fetch fails, \<^verbatim>\<open>update\<close> stores the error
  on the widget and asks the host for an early update, and leaves the cached data and the
  timestamp as they were; they are replaced only when the fetch succeeds.
\<close>

theorem update_failure_keeps_cache:
  "(fetchWeiboHotSearch c widget w = (Inl err, w') \<longrightarrow>
      (\<exists>widget'. weiboWidget_update c widget w = (widget', w') \<and>
         widgetBase.Error (weiboWidget.widgetBase widget') = Some err \<and>
         scheduled (weiboWidget.widgetBase widget') = EarlyUpdate # scheduled (weiboWidget.widgetBase widget) \<and>
         HotSearches widget' = HotSearches widget \<and> LastUpdated widget' = LastUpdated widget)) \<and>
   (fetchWeiboHotSearch c widget w = (Inr hs, w') \<longrightarrow>
      weiboWidget_update c widget w = (widget\<lparr>HotSearches := hs, LastUpdated := clock w'\<rparr>, w')) \<and>
   (\<not> cacheValid fwidget fw \<and> fetchRawFact fwidget fw = Some (Inl ferr, w1) \<longrightarrow>
      (\<exists>fwidget' w1'. randomFactWidget_update fc fwidget fw = Some (fwidget', w1') \<and>
         widgetBase.Error (widgetBase fwidget') = Some ferr \<and>
         scheduled (widgetBase fwidget') = EarlyUpdate # scheduled (widgetBase fwidget) \<and>
         CachedData fwidget' = CachedData fwidget \<and> lastUpdate fwidget' = lastUpdate fwidget)) \<and>
   (randomFactWidget_update fc fwidget fw = Some (fwidget', w2) \<and>
    (CachedData fwidget' \<noteq> CachedData fwidget \<or> lastUpdate fwidget' \<noteq> lastUpdate fwidget) \<longrightarrow>
      (\<exists>rawFact w1. fetchRawFact fwidget fw = Some (Inr rawFact, w1)))"
proof (intro conjI impI)
  assume "fetchWeiboHotSearch c widget w = (Inl err, w')"
  then show "\<exists>widget'. weiboWidget_update c widget w = (widget', w') \<and>
         widgetBase.Error (weiboWidget.widgetBase widget') = Some err \<and>
         scheduled (weiboWidget.widgetBase widget') = EarlyUpdate # scheduled (weiboWidget.widgetBase widget) \<and>
         HotSearches widget' = HotSearches widget \<and> LastUpdated widget' = LastUpdated widget"
    by (simp add: weiboWidget_update_def withError_def scheduleEarlyUpdate_def)
next
  assume "fetchWeiboHotSearch c widget w = (Inr hs, w')"
  then show "weiboWidget_update c widget w = (widget\<lparr>HotSearches := hs, LastUpdated := clock w'\<rparr>, w')"
    by (simp add: weiboWidget_update_def)
next
  assume "\<not> cacheValid fwidget fw \<and> fetchRawFact fwidget fw = Some (Inl ferr, w1)"
  then show "\<exists>fwidget' w1'. randomFactWidget_update fc fwidget fw = Some (fwidget', w1') \<and>
         widgetBase.Error (widgetBase fwidget') = Some ferr \<and>
         scheduled (widgetBase fwidget') = EarlyUpdate # scheduled (widgetBase fwidget) \<and>
         CachedData fwidget' = CachedData fwidget \<and> lastUpdate fwidget' = lastUpdate fwidget"
    by (simp add: update_fetch_failed withError_def scheduleEarlyUpdate_def)
next
  assume a: "randomFactWidget_update fc fwidget fw = Some (fwidget', w2) \<and>
    (CachedData fwidget' \<noteq> CachedData fwidget \<or> lastUpdate fwidget' \<noteq> lastUpdate fwidget)"
  show "\<exists>rawFact w1. fetchRawFact fwidget fw = Some (Inr rawFact, w1)"
  proof (cases "cacheValid fwidget fw")
    case True
    then have "randomFactWidget_update fc fwidget fw = Some (fwidget, fw)"
      by (simp add: update_cached cacheValid_def)
    with a show ?thesis by auto
  next
    case False
    show ?thesis
    proof (cases "fetchRawFact fwidget fw")
      case None
      with False a show ?thesis by (auto simp: randomFactWidget_update_def cacheValid_def)
    next
      case (Some r)
      obtain res w1 where r: "r = (res, w1)" by (cases r)
      show ?thesis
      proof (cases res)
        case (Inl e)
        with update_fetch_failed[OF False, of e w1 fc] Some r a show ?thesis by auto
      next
        case (Inr rawFact)
        with Some r show ?thesis by simp
      qed
    qed
  qed
qed

theorem update_failure_keeps_cache_witness:
  "(\<exists>widget' w'. weiboWidget_update Background zeroWeiboWidget (quietWorld\<lparr>weiboAPI := [answersStatus 503]\<rparr>) = (widget', w') \<and>
      widgetBase.Error (weiboWidget.widgetBase widget') = Some (WeiboStatusCode 503) \<and>
      scheduled (weiboWidget.widgetBase widget') = [EarlyUpdate] \<and>
      HotSearches widget' = [] \<and> LastUpdated widget' = 0) \<and>
   (\<exists>fwidget' w'. randomFactWidget_update Background staleWidget laterWorld = Some (fwidget', w') \<and>
      widgetBase.Error (widgetBase fwidget') = Some ConnectionRefused \<and>
      scheduled (widgetBase fwidget') = [EarlyUpdate] \<and>
      CachedData fwidget' = CachedData staleWidget \<and> lastUpdate fwidget' = 400)"
proof -
  let ?w = "quietWorld\<lparr>weiboAPI := [answersStatus 503]\<rparr>"
  obtain w' where f: "fetchWeiboHotSearch Background zeroWeiboWidget ?w = (Inl (WeiboStatusCode 503), w')"
    by (simp add: weibo_run_defs)
  have z: "scheduled (weiboWidget.widgetBase zeroWeiboWidget) = []" "HotSearches zeroWeiboWidget = []"
    "LastUpdated zeroWeiboWidget = 0"
    by (simp_all add: zeroWeiboWidget_def zeroBase_def)
  from update_failure_keeps_cache[where c = Background and widget = zeroWeiboWidget and w = ?w and err = "WeiboStatusCode 503"
      and w' = w', THEN conjunct1, rule_format, OF f] z
  have a: "\<exists>widget' w'. weiboWidget_update Background zeroWeiboWidget ?w = (widget', w') \<and>
      widgetBase.Error (weiboWidget.widgetBase widget') = Some (WeiboStatusCode 503) \<and>
      scheduled (weiboWidget.widgetBase widget') = [EarlyUpdate] \<and>
      HotSearches widget' = [] \<and> LastUpdated widget' = 0"
    by auto
  have nv: "\<not> cacheValid staleWidget laterWorld"
    by (simp add: staleWidget_def laterWorld_def fact_run_defs)
  obtain w1 where g: "fetchRawFact staleWidget laterWorld = Some (Inl ConnectionRefused, w1)"
    by (simp add: staleWidget_def laterWorld_def fact_run_defs)
  have y: "scheduled (widgetBase staleWidget) = []" "lastUpdate staleWidget = 400"
    by (simp_all add: staleWidget_def fact_run_defs)
  from update_failure_keeps_cache[where fc = Background and fwidget = staleWidget and fw = laterWorld and ferr = ConnectionRefused
      and ?w1.0 = w1, THEN conjunct2, THEN conjunct2, THEN conjunct1, rule_format, OF conjI, OF nv g] y
  have b: "\<exists>fwidget' w'. randomFactWidget_update Background staleWidget laterWorld = Some (fwidget', w') \<and>
      widgetBase.Error (widgetBase fwidget') = Some ConnectionRefused \<and>
      scheduled (widgetBase fwidget') = [EarlyUpdate] \<and>
      CachedData fwidget' = CachedData staleWidget \<and> lastUpdate fwidget' = 400"
    by auto
  show ?thesis using a b by blast
qed

theorem update_within_cache_window_witness:
  "CachedData staleWidget \<noteq> None \<and>
   Since (clock quietWorld) (lastUpdate staleWidget) < CustomCacheDuration (widgetBase staleWidget) \<and>
   randomFactWidget_update Background staleWidget quietWorld = Some (staleWidget, quietWorld) \<and>
   (\<exists>widget1 w1. randomFactWidget_update Background (initialized zeroFactWidget)
        (quietWorld\<lparr>factAPI := [answers penguins]\<rparr>) = Some (widget1, w1) \<and>
      randomFactWidget_update Background widget1 (w1\<lparr>clock := clock w1 + int 5000\<rparr>) =
        Some (widget1, w1\<lparr>clock := clock w1 + int 5000\<rparr>) \<and>
      factFetches (w1\<lparr>clock := clock w1 + int 5000\<rparr>) = 1)"
proof -
  have 1: "CachedData staleWidget \<noteq> None"
    "Since (clock quietWorld) (lastUpdate staleWidget) < CustomCacheDuration (widgetBase staleWidget)"
    by (simp_all add: staleWidget_def fact_run_defs)
  with update_within_cache_window[where widget = staleWidget and w = quietWorld and c = Background]
  have 2: "randomFactWidget_update Background staleWidget quietWorld = Some (staleWidget, quietWorld)"
    by blast
  let ?W = "initialized zeroFactWidget"
  let ?w = "quietWorld\<lparr>factAPI := [answers penguins]\<rparr>"
  have nv: "\<not> cacheValid ?W ?w" by (simp add: fact_run_defs)
  obtain w' where f: "fetchRawFact ?W ?w = Some (Inr penguins, w')"
    by (simp add: fact_run_defs)
  obtain widget1 w1 where u: "randomFactWidget_update Background ?W ?w = Some (widget1, w1)"
    by (simp add: fact_run_defs)
  have d: "int 5000 < CustomCacheDuration (widgetBase ?W)" by (simp add: fact_run_defs)
  have z: "factFetches ?w = 0" by (simp add: factFetches_def quietWorld_def)
  from update_within_cache_window[where ?widget0.0 = ?W and ?w0.0 = ?w and rawFact = penguins and w' = w'
      and c = Background and ?widget1.0 = widget1 and ?w1.0 = w1 and d = 5000 and c' = Background] nv f u d z
  have "randomFactWidget_update Background widget1 (w1\<lparr>clock := clock w1 + int 5000\<rparr>) =
        Some (widget1, w1\<lparr>clock := clock w1 + int 5000\<rparr>) \<and>
      factFetches (w1\<lparr>clock := clock w1 + int 5000\<rparr>) = 1"
    by simp
  with u 1 2 show ?thesis by blast
qed

lemma fetchRawFact_returns:
  "client widget \<noteq> None \<Longrightarrow> \<exists>r w'. fetchRawFact widget w = Some (r, w')"
  by (auto simp: fetchRawFact_def NewRequest_def NewRequestWithContext_def factDo_def
      split: prod.splits reply.splits response_body.splits)

lemma processWithAI_returns:
  "client widget \<noteq> None \<Longrightarrow> \<exists>r w'. processWithAI widget t w = Some (r, w')"
  by (auto simp: processWithAI_def NewRequest_def NewRequestWithContext_def aiDo_def Let_def
      split: prod.splits reply.splits response_body.splits option.splits list.splits)

lemma Since_nonneg: "t \<le> now \<Longrightarrow> 0 \<le> Since now t"
  by (simp add: Since_def minDuration_def maxDuration_def)

lemma update_negative_duration:
  assumes cl: "client widget \<noteq> None"
    and neg: "CustomCacheDuration (widgetBase widget) < 0"
    and mono: "lastUpdate widget \<le> clock w"
  shows "\<exists>widget' w'. randomFactWidget_update c widget w = Some (widget', w') \<and>
     client widget' \<noteq> None \<and> CustomCacheDuration (widgetBase widget') < 0 \<and>
     lastUpdate widget' \<le> clock w' \<and> factFetches w' = factFetches w + 1"
proof -
  have nv: "\<not> cacheValid widget w"
    using neg Since_nonneg[OF mono] by (simp add: cacheValid_def)
  from fetchRawFact_returns[OF cl] obtain r w1 where f: "fetchRawFact widget w = Some (r, w1)"
    by blast
  show ?thesis
  proof (cases r)
    case (Inl err)
    with update_fetch_failed[OF nv, of err w1 c] f fetchRawFact_clock[OF f] factFetches_fetch[OF f]
      cl neg mono
    show ?thesis by (auto simp: withError_def scheduleEarlyUpdate_def factFetches_def)
  next
    case (Inr rawFact)
    with f have f': "fetchRawFact widget w = Some (Inr rawFact, w1)" by simp
    have "\<exists>widget' w'. randomFactWidget_update c widget w = Some (widget', w')"
    proof (cases "hasAIConfig widget")
      case False
      with update_no_ai[OF nv f'] show ?thesis by blast
    next
      case True
      from processWithAI_returns[OF cl] obtain r2 w2
        where p: "processWithAI widget (Text rawFact) w1 = Some (r2, w2)" by blast
      show ?thesis
      proof (cases r2)
        case (Inl e)
        with update_ai_failed[OF nv f' True] p show ?thesis by blast
      next
        case (Inr t)
        with update_ai_ok[OF nv f' True] p show ?thesis by blast
      qed
    qed
    then obtain widget' w' where u: "randomFactWidget_update c widget w = Some (widget', w')"
      by blast
    from update_fetched[OF nv f' u] u cl neg show ?thesis by auto
  qed
qed

lemma factUpdates_negative_duration:
  assumes "client widget \<noteq> None" "CustomCacheDuration (widgetBase widget) < 0"
    "lastUpdate widget \<le> clock w"
  shows "\<exists>widget' w'. factUpdates calls widget w = Some (widget', w') \<and>
     factFetches w' = factFetches w + length calls"
  using assms
proof (induction calls arbitrary: widget w)
  case Nil
  then show ?case by simp
next
  case (Cons call calls)
  obtain c d where call: "call = (c, d)" by (cases call)
  let ?w = "w\<lparr>clock := clock w + int d\<rparr>"
  have "lastUpdate widget \<le> clock ?w" using Cons.prems(3) by simp
  from update_negative_duration[OF Cons.prems(1,2) this, of c]
  obtain widget1 w1 where u: "randomFactWidget_update c widget ?w = Some (widget1, w1)"
    and inv: "client widget1 \<noteq> None" "CustomCacheDuration (widgetBase widget1) < 0"
      "lastUpdate widget1 \<le> clock w1"
    and n: "factFetches w1 = factFetches ?w + 1"
    by blast
  from Cons.IH[OF inv] obtain widget' w' where
    "factUpdates calls widget1 w1 = Some (widget', w')" "factFetches w' = factFetches w1 + length calls"
    by blast
  with u n call show ?case by (simp add: factFetches_def)
qed

text \<open>
  Claim negative_cache_duration_always_fetches. \<^verbatim>\<open>initialize\<close> of the random-fact widget replaces the configured cache
  duration by the two-hour default only when it is exactly zero, so a negative duration is
  kept. Then, the clock not being behind the last update (the timestamp is zero or an
  earlier reading of the same clock), every later \<^verbatim>\<open>update\<close> call returns and performs one
  more upstream fetch, whether or not a record is cached: \<open>n\<close> calls make \<open>n\<close> fetches.
\<close>

theorem negative_cache_duration_always_fetches:
  "CustomCacheDuration (widgetBase (fst (snd (randomFactWidget_initialize cfg w0)))) =
     (if CustomCacheDuration (widgetBase cfg) = 0 then defaultFactCacheDuration
      else CustomCacheDuration (widgetBase cfg)) \<and>
   (CustomCacheDuration (widgetBase cfg) < 0 \<and> lastUpdate cfg \<le> clock w \<longrightarrow>
      (\<exists>widget' w'. factUpdates calls (fst (snd (randomFactWidget_initialize cfg w0))) w = Some (widget', w') \<and>
         factFetches w' = factFetches w + length calls))"
proof (intro conjI impI)
  show "CustomCacheDuration (widgetBase (fst (snd (randomFactWidget_initialize cfg w0)))) =
     (if CustomCacheDuration (widgetBase cfg) = 0 then defaultFactCacheDuration
      else CustomCacheDuration (widgetBase cfg))"
    by (simp add: randomFactWidget_initialize_def Let_def withCacheDuration_def withTitle_def)
next
  assume a: "CustomCacheDuration (widgetBase cfg) < 0 \<and> lastUpdate cfg \<le> clock w"
  let ?W = "fst (snd (randomFactWidget_initialize cfg w0))"
  have "client ?W \<noteq> None" "CustomCacheDuration (widgetBase ?W) < 0" "lastUpdate ?W \<le> clock w"
    using a by (simp_all add: randomFactWidget_initialize_def Let_def withCacheDuration_def withTitle_def)
  then show "\<exists>widget' w'. factUpdates calls ?W w = Some (widget', w') \<and>
         factFetches w' = factFetches w + length calls"
    by (rule factUpdates_negative_duration)
qed

lemma fetchWeiboHotSearch_error:
  "fetchWeiboHotSearch c widget w = (Inl err, w') \<Longrightarrow> err \<noteq> NoDataAvailable"
  by (auto simp: fetchWeiboHotSearch_def NewRequestWithContext_def
      split: if_splits prod.splits reply.splits response_body.splits sum.splits)

lemma weiboWidget_update_inv:
  assumes "weiboWidget_update c widget w = (widget', w')"
    "ContentAvailable (weiboWidget.widgetBase widget)"
    "widgetBase.Error (weiboWidget.widgetBase widget) \<noteq> Some NoDataAvailable"
  shows "ContentAvailable (weiboWidget.widgetBase widget') \<and>
    widgetBase.Error (weiboWidget.widgetBase widget') \<noteq> Some NoDataAvailable"
proof (cases "fetchWeiboHotSearch c widget w")
  case (Pair r w1)
  show ?thesis
  proof (cases r)
    case (Inl err)
    with Pair assms fetchWeiboHotSearch_error[of c widget w err w1] show ?thesis
      by (auto simp: weiboWidget_update_def withError_def scheduleEarlyUpdate_def)
  next
    case (Inr hs)
    with Pair assms show ?thesis by (auto simp: weiboWidget_update_def)
  qed
qed

lemma weiboCalls_inv:
  assumes "ContentAvailable (weiboWidget.widgetBase widget)"
    "widgetBase.Error (weiboWidget.widgetBase widget) \<noteq> Some NoDataAvailable"
  shows "ContentAvailable (weiboWidget.widgetBase (fst (weiboCalls calls widget w))) \<and>
    widgetBase.Error (weiboWidget.widgetBase (fst (weiboCalls calls widget w))) \<noteq> Some NoDataAvailable"
  using assms
proof (induction calls arbitrary: widget w)
  case Nil
  then show ?case by simp
next
  case (Cons call calls)
  show ?case
  proof (cases call)
    case (CallUpdate c)
    obtain widget' w' where u: "weiboWidget_update c widget w = (widget', w')"
      by (cases "weiboWidget_update c widget w")
    from weiboWidget_update_inv[OF u Cons.prems] have
      "ContentAvailable (weiboWidget.widgetBase widget')"
      "widgetBase.Error (weiboWidget.widgetBase widget') \<noteq> Some NoDataAvailable"
      by simp_all
    from Cons.IH[OF this, of w'] u CallUpdate show ?thesis by simp
  next
    case CallRender
    with Cons.IH[OF Cons.prems, of w] show ?thesis by (simp add: weiboWidget_Render_def)
  qed
qed

lemma weiboCalls_content:
  "ContentAvailable (weiboWidget.widgetBase widget) \<Longrightarrow>
   ContentAvailable (weiboWidget.widgetBase (fst (weiboCalls calls widget w)))"
proof (induction calls arbitrary: widget w)
  case Nil
  then show ?case by simp
next
  case (Cons call calls)
  show ?case
  proof (cases call)
    case (CallUpdate c)
    obtain r w1 where f: "fetchWeiboHotSearch c widget w = (r, w1)"
      by (cases "fetchWeiboHotSearch c widget w")
    obtain widget' w' where u: "weiboWidget_update c widget w = (widget', w')"
      by (cases "weiboWidget_update c widget w")
    have "ContentAvailable (weiboWidget.widgetBase widget')"
      using u f Cons.prems
      by (cases r) (auto simp: weiboWidget_update_def withError_def scheduleEarlyUpdate_def)
    from Cons.IH[OF this, of w'] u CallUpdate show ?thesis by simp
  next
    case CallRender
    with Cons.IH[OF Cons.prems, of w] show ?thesis by (simp add: weiboWidget_Render_def)
  qed
qed

text \<open>
  Claim weiboWidget_content_always_available. The hot-search widget is never without content: \<^verbatim>\<open>initialize\<close> sets
  \<^verbatim>\<open>ContentAvailable\<close>, it stays set after any series of \<^verbatim>\<open>update\<close> and \<^verbatim>\<open>Render\<close> calls,
  whatever the fetches return, no call stores the missing-data error, and \<^verbatim>\<open>Render\<close> returns
  the full template applied to the widget as it is and leaves the widget unchanged, also
  when the item list is empty.
\<close>

theorem weiboWidget_content_always_available:
  "ContentAvailable (weiboWidget.widgetBase (snd (weiboWidget_initialize cfg))) \<and>
   ContentAvailable (weiboWidget.widgetBase (fst (weiboCalls calls (snd (weiboWidget_initialize cfg)) w))) \<and>
   (widgetBase.Error (weiboWidget.widgetBase cfg) \<noteq> Some NoDataAvailable \<longrightarrow>
      widgetBase.Error (weiboWidget.widgetBase (fst (weiboCalls calls (snd (weiboWidget_initialize cfg)) w)))
        \<noteq> Some NoDataAvailable) \<and>
   weiboWidget_Render widget = (\<lparr>template = [''weibo.html'', ''widget-base.html''], data = Some widget\<rparr>, widget)"
proof -
  let ?W = "snd (weiboWidget_initialize cfg)"
  have 1: "ContentAvailable (weiboWidget.widgetBase ?W)"
    by (simp add: weiboWidget_initialize_def Let_def)
  have 2: "widgetBase.Error (weiboWidget.widgetBase ?W) = widgetBase.Error (weiboWidget.widgetBase cfg)"
    by (simp add: weiboWidget_initialize_def Let_def withCacheDuration_def withTitle_def)
  have 3: "weiboWidget_Render widget = (\<lparr>template = [''weibo.html'', ''widget-base.html''], data = Some widget\<rparr>, widget)"
    by (simp add: weiboWidget_Render_def renderTemplate_def weiboWidgetTemplate_def mustParseTemplate_def)
  show ?thesis
    using 1 2 3 weiboCalls_content[OF 1, of calls w] weiboCalls_inv[OF 1, of calls w] by simp
qed

text \<open>
  The definitions that evaluate \<^verbatim>\<open>Render\<close> of the random-fact widget.
\<close>

lemmas render_defs =
  randomFactWidget_Render_def renderTemplate_def mustParseTemplate_def randomFactWidgetTemplate_def

theorem negative_cache_duration_always_fetches_witness:
  "CustomCacheDuration (widgetBase negativeConfig) < 0 \<and> lastUpdate negativeConfig \<le> clock laterWorld \<and>
   CachedData (fst (snd (randomFactWidget_initialize negativeConfig quietWorld))) \<noteq> None \<and>
   CustomCacheDuration (widgetBase (fst (snd (randomFactWidget_initialize negativeConfig quietWorld)))) = - 1 \<and>
   (\<exists>widget' w'. factUpdates [(Background, 0), (Background, 1)]
        (fst (snd (randomFactWidget_initialize negativeConfig quietWorld)))
        (laterWorld\<lparr>factAPI := [answers penguins]\<rparr>) = Some (widget', w') \<and>
      factFetches w' = 2)"
proof -
  let ?w = "laterWorld\<lparr>factAPI := [answers penguins]\<rparr>"
  let ?calls = "[(Background, 0), (Background, 1 :: nat)]"
  have h: "CustomCacheDuration (widgetBase negativeConfig) < 0"
    "lastUpdate negativeConfig \<le> clock ?w"
    by (simp_all add: negativeConfig_def staleWidget_def laterWorld_def fact_run_defs)
  have g: "lastUpdate negativeConfig \<le> clock laterWorld"
    "CachedData (fst (snd (randomFactWidget_initialize negativeConfig quietWorld))) \<noteq> None"
    "CustomCacheDuration (widgetBase negativeConfig) = - 1"
    by (simp_all add: negativeConfig_def staleWidget_def laterWorld_def fact_run_defs)
  have z: "factFetches ?w + length ?calls = 2"
    by (simp add: laterWorld_def quietWorld_def factFetches_def)
  note t = negative_cache_duration_always_fetches[where cfg = negativeConfig and ?w0.0 = quietWorld and w = ?w and calls = ?calls]
  from t g(3) have d: "CustomCacheDuration (widgetBase (fst (snd (randomFactWidget_initialize negativeConfig quietWorld)))) = - 1"
    by (simp del: factUpdates.simps)
  from t h obtain widget' w' where
    "factUpdates ?calls (fst (snd (randomFactWidget_initialize negativeConfig quietWorld))) ?w = Some (widget', w')"
    "factFetches w' = factFetches ?w + length ?calls"
    by blast
  with z have "\<exists>widget' w'. factUpdates ?calls (fst (snd (randomFactWidget_initialize negativeConfig quietWorld))) ?w = Some (widget', w') \<and>
      factFetches w' = 2"
    by (metis)
  with h(1) g(1,2) d show ?thesis by blast
qed

theorem weiboWidget_content_always_available_witness:
  "widgetBase.Error (weiboWidget.widgetBase zeroWeiboWidget) \<noteq> Some NoDataAvailable \<and>
   ContentAvailable (weiboWidget.widgetBase
     (fst (weiboCalls [CallRender, CallUpdate Background, CallRender] (snd (weiboWidget_initialize zeroWeiboWidget))
            (quietWorld\<lparr>weiboAPI := [answersStatus 503]\<rparr>)))) \<and>
   widgetBase.Error (weiboWidget.widgetBase
     (fst (weiboCalls [CallRender, CallUpdate Background, CallRender] (snd (weiboWidget_initialize zeroWeiboWidget))
            (quietWorld\<lparr>weiboAPI := [answersStatus 503]\<rparr>)))) \<noteq> Some NoDataAvailable \<and>
   HotSearches (snd (weiboWidget_initialize zeroWeiboWidget)) = [] \<and>
   weiboWidget_Render (snd (weiboWidget_initialize zeroWeiboWidget)) =
     (\<lparr>template = [''weibo.html'', ''widget-base.html''], data = Some (snd (weiboWidget_initialize zeroWeiboWidget))\<rparr>,
      snd (weiboWidget_initialize zeroWeiboWidget))"
proof -
  have h: "widgetBase.Error (weiboWidget.widgetBase zeroWeiboWidget) \<noteq> Some NoDataAvailable"
    "HotSearches (snd (weiboWidget_initialize zeroWeiboWidget)) = []"
    by (simp_all add: zeroWeiboWidget_def zeroBase_def weiboWidget_initialize_def Let_def)
  from weiboWidget_content_always_available[where cfg = zeroWeiboWidget and calls = "[CallRender, CallUpdate Background, CallRender]"
      and w = "quietWorld\<lparr>weiboAPI := [answersStatus 503]\<rparr>"
      and widget = "snd (weiboWidget_initialize zeroWeiboWidget)"] h
  show ?thesis by blast
qed

text \<open>
  Claim randomFactWidget_Render_result says that \<^verbatim>\<open>Render\<close> with a cached record leaves the widget with no error. It
  does not: \<^verbatim>\<open>Render\<close> before the first fetch stores the missing-data error, the successful
  \<^verbatim>\<open>update\<close> that follows does not clear it, and \<^verbatim>\<open>Render\<close> with the record then cached
  leaves it in place.
\<close>

theorem randomFactWidget_Render_keeps_error:
  "CachedData afterFirstFetch \<noteq> None \<and>
   widgetBase.Error (widgetBase (fst (snd (randomFactWidget_Render afterFirstFetch quietWorld)))) =
     Some NoDataAvailable"
  by (simp add: afterFirstFetch_def render_defs fact_run_defs penguins_def)

text \<open>
  Claim randomFactWidget_Render_result, amended. \<^verbatim>\<open>Render\<close> of the random-fact widget with no cached record clears
  \<^verbatim>\<open>ContentAvailable\<close>, stores the missing-data error, prints a line and returns the base
  template applied to no data. With a cached record it sets \<^verbatim>\<open>ContentAvailable\<close>, returns
  the full template applied to the widget, and stores no error: the error field is left
  as it was.
\<close>

theorem randomFactWidget_Render_result:
  "(CachedData widget = None \<longrightarrow>
      randomFactWidget_Render widget w =
        (\<lparr>template = [''widget-base.html''], data = None\<rparr>,
         widget\<lparr>widgetBase := (widgetBase widget)\<lparr>ContentAvailable := False,
                                                  widgetBase.Error := Some NoDataAvailable\<rparr>\<rparr>,
         w\<lparr>stdout := stdout w @ [NoCachedData]\<rparr>)) \<and>
   (CachedData widget \<noteq> None \<longrightarrow>
      randomFactWidget_Render widget w =
        (\<lparr>template = [''random-fact.html'', ''widget-base.html''],
          data = Some (widget\<lparr>widgetBase := (widgetBase widget)\<lparr>ContentAvailable := True\<rparr>\<rparr>)\<rparr>,
         widget\<lparr>widgetBase := (widgetBase widget)\<lparr>ContentAvailable := True\<rparr>\<rparr>, w) \<and>
      CachedData (fst (snd (randomFactWidget_Render widget w))) = CachedData widget \<and>
      ContentAvailable (widgetBase (fst (snd (randomFactWidget_Render widget w)))) \<and>
      widgetBase.Error (widgetBase (fst (snd (randomFactWidget_Render widget w)))) =
        widgetBase.Error (widgetBase widget))"
  by (simp add: render_defs withError_def Let_def)

theorem randomFactWidget_Render_result_witness:
  "CachedData (initialized zeroFactWidget) = None \<and>
   \<not> ContentAvailable (widgetBase (fst (snd (randomFactWidget_Render (initialized zeroFactWidget) quietWorld)))) \<and>
   widgetBase.Error (widgetBase (fst (snd (randomFactWidget_Render (initialized zeroFactWidget) quietWorld)))) =
     Some NoDataAvailable \<and>
   fst (randomFactWidget_Render (initialized zeroFactWidget) quietWorld) =
     \<lparr>template = [''widget-base.html''], data = None\<rparr> \<and>
   CachedData staleWidget \<noteq> None \<and>
   ContentAvailable (widgetBase (fst (snd (randomFactWidget_Render staleWidget quietWorld)))) \<and>
   widgetBase.Error (widgetBase (fst (snd (randomFactWidget_Render staleWidget quietWorld)))) = None \<and>
   template (fst (randomFactWidget_Render staleWidget quietWorld)) = [''random-fact.html'', ''widget-base.html'']"
proof -
  have h: "CachedData (initialized zeroFactWidget) = None" "CachedData staleWidget \<noteq> None"
    "widgetBase.Error (widgetBase staleWidget) = None"
    by (simp_all add: staleWidget_def fact_run_defs)
  from randomFactWidget_Render_result[where widget = "initialized zeroFactWidget" and w = quietWorld] h(1)
    randomFactWidget_Render_result[where widget = staleWidget and w = quietWorld] h(2,3)
  show ?thesis by simp
qed

text \<open>
  Claim C6 fails for the random-fact widget. With context 1 cancelled and handed to both
  \<^verbatim>\<open>update\<close> functions: the random-fact widget sends its request with the background
  context, gets the reply, caches the record and stores no error; the hot-search widget
  sends its request with context 1, the request is aborted and the failure is stored.
\<close>

theorem randomFactWidget_update_ignores_cancellation:
  "is_cancelled (cancelled cancelledWorld) (Cancellable 1) \<and>
   (\<exists>widget' w'. randomFactWidget_update (Cancellable 1) (initialized zeroFactWidget) cancelledWorld =
        Some (widget', w') \<and>
      requests w' = [factRequest] \<and> ctx factRequest = Background \<and>
      CachedData widget' \<noteq> None \<and> widgetBase.Error (widgetBase widget') = None \<and>
      scheduled (widgetBase widget') = [NextUpdate]) \<and>
   (\<exists>widget' w'. weiboWidget_update (Cancellable 1) (snd (weiboWidget_initialize zeroWeiboWidget)) cancelledWorld =
        (widget', w') \<and>
      map ctx (requests w') = [Cancellable 1] \<and>
      widgetBase.Error (weiboWidget.widgetBase widget') = Some (RequestFailed ContextCanceled) \<and>
      scheduled (weiboWidget.widgetBase widget') = [EarlyUpdate])"
  by (simp add: cancelledWorld_def fact_run_defs weiboWidget_update_def fetchWeiboHotSearch_def
      weiboDo_def weiboRequest_def zeroWeiboWidget_def factRequest_def penguins_def
      weiboWidget_initialize_def)

text \<open>
  The context is not used by \<^verbatim>\<open>update\<close> of the random-fact widget at all, whereas
  \<^verbatim>\<open>update\<close> of the hot-search widget fails on a cancelled context, its request carrying
  that context.
\<close>

lemma randomFactWidget_update_ignores_ctx:
  "randomFactWidget_update c widget w = randomFactWidget_update c' widget w"
  by (simp add: randomFactWidget_update_def)

lemma weiboWidget_update_cancelled:
  assumes "is_cancelled (cancelled w) c"
  shows "\<exists>req. weiboWidget_update c widget w =
     (widget\<lparr>weiboWidget.widgetBase :=
         scheduleEarlyUpdate (withError (RequestFailed ContextCanceled) (weiboWidget.widgetBase widget))\<rparr>,
      w\<lparr>requests := requests w @ [req]\<rparr>) \<and> ctx req = c"
  using assms
  by (cases c) (auto simp: weiboWidget_update_def fetchWeiboHotSearch_def NewRequestWithContext_def weiboDo_def
      roundTrip_def weiboRequest_def Header_Set_def is_cancelled_def)

end
